theory Spec2Isabelle
  imports Complex_Main
begin

section \<open>Wheelie: the chance-wheel bot (\<open>wheel_bot.py\<close>)\<close>

text \<open>
  A shallow embedding of the wheel data model, the colour parser, the wheel store
  (cache in front of the database), the slash commands that edit and spin a wheel,
  and the angles handed to the pie-slice drawing routine.

  Conventions of the embedding.
  \<^item> A Python \<open>float\<close> is a finite IEEE double, taken for the \<^typ>\<open>real\<close> it
    denotes. Comparisons are exact; every arithmetic operation rounds its exact result
    to the nearest double, ties to even. Infinities and NaN are not modelled: a result
    of magnitude \<open>2 ^ 1024\<close> or more is outside the model.
  \<^item> A Python \<open>str\<close> is a \<^typ>\<open>string\<close> of ASCII characters; \<open>lower\<close>, \<open>upper\<close> and
    \<open>strip\<close> act on ASCII letters and ASCII white space, every other character is
    left alone.
  \<^item> The value a call of \<open>random.randint\<close> or \<open>random.uniform\<close> returns is an
    argument of the function that makes the call.
  \<^item> A command that answers with an error message and returns early, or that is
    ended by an exception, yields \<open>Inl\<close> of an \<open>error\<close>; the message texts and embeds
    are not modelled.
  \<^item> Pillow is not part of the program: which colour strings it accepts is an
    argument, \<open>getrgb\<close>, of the functions that draw.
\<close>

subsection \<open>Strings: \<open>str.lower\<close>, \<open>str.upper\<close>, \<open>str.strip\<close>\<close>

definition ord :: "char \<Rightarrow> nat" where
  "ord c = of_char c"

definition is_upper_letter :: "char \<Rightarrow> bool" where
  "is_upper_letter c = (65 \<le> ord c \<and> ord c \<le> 90)"

definition is_lower_letter :: "char \<Rightarrow> bool" where
  "is_lower_letter c = (97 \<le> ord c \<and> ord c \<le> 122)"

definition char_lower :: "char \<Rightarrow> char" where
  "char_lower c = (if is_upper_letter c then char_of (ord c + 32) else c)"

definition char_upper :: "char \<Rightarrow> char" where
  "char_upper c = (if is_lower_letter c then char_of (ord c - 32) else c)"

definition lower :: "string \<Rightarrow> string" where
  "lower s = map char_lower s"

definition upper :: "string \<Rightarrow> string" where
  "upper s = map char_upper s"

text \<open>White space for \<open>str.strip()\<close>: tab to carriage return, the four separators
  \<open>0x1C\<close> to \<open>0x1F\<close>, and the blank.\<close>

definition is_strip_space :: "char \<Rightarrow> bool" where
  "is_strip_space c = ((9 \<le> ord c \<and> ord c \<le> 13) \<or> (28 \<le> ord c \<and> ord c \<le> 32))"

definition lstrip :: "string \<Rightarrow> string" where
  "lstrip s = dropWhile is_strip_space s"

definition strip :: "string \<Rightarrow> string" where
  "strip s = rev (dropWhile is_strip_space (rev (lstrip s)))"

subsection \<open>\<open>int(text, 16)\<close>: does the text parse?\<close>

text \<open>White space for \<open>int\<close> on an ASCII string: tab to carriage return and the blank.\<close>

definition is_int_space :: "char \<Rightarrow> bool" where
  "is_int_space c = ((9 \<le> ord c \<and> ord c \<le> 13) \<or> ord c = 32)"

definition is_hex_digit :: "char \<Rightarrow> bool" where
  "is_hex_digit c = ((48 \<le> ord c \<and> ord c \<le> 57) \<or> (65 \<le> ord c \<and> ord c \<le> 70)
                     \<or> (97 \<le> ord c \<and> ord c \<le> 102))"

definition skip_sign :: "string \<Rightarrow> string" where
  "skip_sign s = (case s of [] \<Rightarrow> []
                  | c # cs \<Rightarrow> if c = CHR ''+'' \<or> c = CHR ''-'' then cs else s)"

text \<open>An optional \<open>0x\<close> or \<open>0X\<close>, with one underscore allowed right after it.\<close>

definition skip_prefix :: "string \<Rightarrow> string" where
  "skip_prefix s =
     (case s of
        c0 # c1 # cs \<Rightarrow>
          if c0 = CHR ''0'' \<and> (c1 = CHR ''x'' \<or> c1 = CHR ''X'')
          then (case cs of [] \<Rightarrow> [] | c2 # cs' \<Rightarrow> if c2 = CHR ''_'' then cs' else cs)
          else s
      | _ \<Rightarrow> s)"

text \<open>The run of digits, single underscores allowed between digits: \<open>prev\<close> is the
  character read last. The result is what follows the run, \<open>None\<close> on two underscores in
  a row or an underscore at the end of the run.\<close>

fun scan_digits :: "char \<Rightarrow> string \<Rightarrow> string option" where
  "scan_digits prev [] = (if prev = CHR ''_'' then None else Some [])"
| "scan_digits prev (c # cs) =
     (if c = CHR ''_'' then (if prev = CHR ''_'' then None else scan_digits c cs)
      else if is_hex_digit c then scan_digits c cs
      else if prev = CHR ''_'' then None else Some (c # cs))"

text \<open>\<open>int(text, 16)\<close> returns (True) or raises \<open>ValueError\<close> (False).\<close>

definition int16_ok :: "string \<Rightarrow> bool" where
  "int16_ok text =
     (let s = skip_prefix (skip_sign (dropWhile is_int_space text))
      in case s of
           [] \<Rightarrow> False
         | c # cs \<Rightarrow>
             if c = CHR ''_'' then False
             else (case scan_digits (CHR 0x00) s of
                     None \<Rightarrow> False
                   | Some rest \<Rightarrow> rest \<noteq> s \<and> dropWhile is_int_space rest = []))"

subsection \<open>Formatting \<open>f"#{n:06X}"\<close>\<close>

definition hex_digit_upper :: "nat \<Rightarrow> char" where
  "hex_digit_upper d = (if d < 10 then char_of (48 + d) else char_of (55 + d))"

fun hex_upper :: "nat \<Rightarrow> string" where
  "hex_upper n = (if n < 16 then [hex_digit_upper n]
                  else hex_upper (n div 16) @ [hex_digit_upper (n mod 16)])"

declare hex_upper.simps [simp del]

definition format_06X :: "nat \<Rightarrow> string" where
  "format_06X n = (let ds = hex_upper n in replicate (6 - length ds) (CHR ''0'') @ ds)"

subsection \<open>Floats\<close>

text \<open>\<open>int.bit_length\<close>.\<close>

fun bit_length :: "nat \<Rightarrow> nat" where
  "bit_length n = (if n = 0 then 0 else Suc (bit_length (n div 2)))"

declare bit_length.simps [simp del]

definition pow2 :: "int \<Rightarrow> real" where
  "pow2 e = (if 0 \<le> e then 2 ^ nat e else 1 / 2 ^ nat (- e))"

text \<open>The integer nearest to \<open>y\<close>, the even one of the two when \<open>y\<close> lies half way.\<close>

definition round_half_even :: "real \<Rightarrow> int" where
  "round_half_even y =
     (let f = \<lfloor>y\<rfloor>; d = y - of_int f
      in if d < 1 / 2 then f else if 1 / 2 < d then f + 1
         else if even f then f else f + 1)"

text \<open>For positive \<open>x\<close>, the exponent \<open>k\<close> with \<open>2 ^ k \<le> x < 2 ^ (k + 1)\<close>.\<close>

definition ilog2 :: "real \<Rightarrow> int" where
  "ilog2 x = (if 1 \<le> x then int (bit_length (nat \<lfloor>x\<rfloor>)) - 1
              else - int (bit_length (nat (\<lceil>1 / x\<rceil> - 1))))"

text \<open>Rounding to a double: 53 significant bits, the spacing never below \<open>2 ^ -1074\<close>
  (the subnormal numbers).\<close>

definition fl :: "real \<Rightarrow> real" where
  "fl x =
     (if x = 0 then 0
      else let e = max (ilog2 \<bar>x\<bar> - 52) (- 1074);
               m = round_half_even (\<bar>x\<bar> / pow2 e)
           in sgn x * of_int m * pow2 e)"

text \<open>The operators \<open>+\<close>, \<open>-\<close>, \<open>*\<close> and \<open>/\<close> on floats. The only divisor in the program is
  the constant 100.\<close>

definition fadd :: "real \<Rightarrow> real \<Rightarrow> real" where
  "fadd x y = fl (x + y)"

definition fsub :: "real \<Rightarrow> real \<Rightarrow> real" where
  "fsub x y = fl (x - y)"

definition fmul :: "real \<Rightarrow> real \<Rightarrow> real" where
  "fmul x y = fl (x * y)"

definition fdiv :: "real \<Rightarrow> real \<Rightarrow> real" where
  "fdiv x y = fl (x / y)"

subsection \<open>\<open>WheelSection\<close>\<close>

definition color_map :: "(string \<times> string) list" where
  "color_map =
     [(''red'', ''#FF0000''), (''blue'', ''#0000FF''), (''green'', ''#00FF00''),
      (''yellow'', ''#FFFF00''), (''orange'', ''#FFA500''), (''purple'', ''#800080''),
      (''pink'', ''#FFC0CB''), (''cyan'', ''#00FFFF''), (''magenta'', ''#FF00FF''),
      (''lime'', ''#00FF00''), (''navy'', ''#000080''), (''teal'', ''#008080''),
      (''olive'', ''#808000''), (''maroon'', ''#800000''), (''gray'', ''#808080''),
      (''silver'', ''#C0C0C0''), (''black'', ''#000000''), (''white'', ''#FFFFFF'')]"

definition startswith_hash :: "string \<Rightarrow> bool" where
  "startswith_hash s = (case s of [] \<Rightarrow> False | c # _ \<Rightarrow> c = CHR ''#'')"

text \<open>\<open>_parse_color(color)\<close>; \<open>rnd\<close> is what \<open>random.randint(0, 0xFFFFFF)\<close> returns if
  the last line is reached.\<close>

definition parse_color :: "string \<Rightarrow> nat \<Rightarrow> string" where
  "parse_color color0 rnd =
     (let color = strip (lower color0)
      in case map_of color_map color of
           Some hex \<Rightarrow> hex
         | None \<Rightarrow>
             if startswith_hash color \<and> length color = 7 \<and> int16_ok (tl color)
             then upper color
             else CHR ''#'' # format_06X rnd)"

record WheelSection =
  name :: string
  percentage :: real
  color :: string

text \<open>The constructor \<open>WheelSection(name, percentage, color)\<close>.\<close>

definition new_section :: "string \<Rightarrow> real \<Rightarrow> string \<Rightarrow> nat \<Rightarrow> WheelSection" where
  "new_section n p c rnd = \<lparr>name = n, percentage = p, color = parse_color c rnd\<rparr>"

definition to_dict :: "WheelSection \<Rightarrow> string \<times> real \<times> string" where
  "to_dict s = (name s, percentage s, color s)"

text \<open>\<open>from_dict\<close> goes through the constructor, so the stored colour is parsed again.\<close>

definition from_dict :: "string \<times> real \<times> string \<Rightarrow> nat \<Rightarrow> WheelSection" where
  "from_dict d rnd = (case d of (n, p, c) \<Rightarrow> new_section n p c rnd)"

subsection \<open>\<open>WheelDatabase\<close>\<close>

text \<open>
  The table \<open>wheels\<close> maps a guild id to the JSON text of its sections. The text is
  modelled by the list of dictionaries it encodes, each a triple of the values under
  \<open>name\<close>, \<open>percentage\<close> and \<open>color\<close>: \<open>json.loads (json.dumps x)\<close> is taken to be
  \<open>x\<close>. In \<open>load_wheel\<close>, \<open>rnds i\<close> is what \<open>random.randint\<close> returns while the
  section at position \<open>i\<close> is built.
\<close>

type_synonym WheelDatabase = "int \<rightharpoonup> (string \<times> real \<times> string) list"

definition save_wheel :: "WheelDatabase \<Rightarrow> int \<Rightarrow> WheelSection list \<Rightarrow> WheelDatabase" where
  "save_wheel db guild_id sections = db(guild_id \<mapsto> map to_dict sections)"

definition load_wheel :: "WheelDatabase \<Rightarrow> int \<Rightarrow> (nat \<Rightarrow> nat) \<Rightarrow> WheelSection list" where
  "load_wheel db guild_id rnds =
     (case db guild_id of
        Some sections_data \<Rightarrow>
          map (\<lambda>(i, d). from_dict d (rnds i)) (enumerate 0 sections_data)
      | None \<Rightarrow> [])"

subsection \<open>\<open>ChanceWheelBot\<close>: the cache in front of the database\<close>

record ChanceWheelBot =
  wheels :: "int \<rightharpoonup> WheelSection list"
  database :: WheelDatabase

definition get_wheel_sections ::
  "ChanceWheelBot \<Rightarrow> int \<Rightarrow> (nat \<Rightarrow> nat) \<Rightarrow> WheelSection list \<times> ChanceWheelBot" where
  "get_wheel_sections self guild_id rnds =
     (case wheels self guild_id of
        Some sections \<Rightarrow> (sections, self)
      | None \<Rightarrow>
          (let sections = load_wheel (database self) guild_id rnds
           in (sections, self\<lparr>wheels := (wheels self)(guild_id \<mapsto> sections)\<rparr>)))"

definition save_wheel_sections ::
  "ChanceWheelBot \<Rightarrow> int \<Rightarrow> WheelSection list \<Rightarrow> ChanceWheelBot" where
  "save_wheel_sections self guild_id sections =
     self\<lparr>wheels := (wheels self)(guild_id \<mapsto> sections),
         database := save_wheel (database self) guild_id sections\<rparr>"

text \<open>\<open>sum\<close> over the percentages: the additions are made from left to right, starting
  from 0, each rounded (CPython up to version 3.11; later versions compensate the
  rounding errors of the partial sums).\<close>

definition calculate_total_percentage :: "WheelSection list \<Rightarrow> real" where
  "calculate_total_percentage sections = foldl fadd 0 (map percentage sections)"

subsection \<open>The commands\<close>

text \<open>
  The early returns of the commands, named as the specification names them. The two
  that quote a total in their message carry it. \<open>ValueError\<close> is what Pillow raises on
  a colour it cannot parse, \<open>StopIteration\<close> is \<open>next\<close> on a generator that yields
  nothing.
\<close>

datatype error =
    InvalidPercentage
  | DuplicateName
  | PercentageBudgetExceeded real
  | SectionNotFound
  | EmptyWheel
  | IncompleteWheel real
  | ValueError
  | StopIteration

definition create_wheel :: "ChanceWheelBot \<Rightarrow> int \<Rightarrow> ChanceWheelBot" where
  "create_wheel self guild_id = save_wheel_sections self guild_id []"

definition name_matches :: "string \<Rightarrow> WheelSection \<Rightarrow> bool" where
  "name_matches n section = (lower (name section) = lower n)"

text \<open>On success \<open>add_section\<close> yields the new section and the new total.\<close>

definition add_section ::
  "ChanceWheelBot \<Rightarrow> int \<Rightarrow> string \<Rightarrow> real \<Rightarrow> string \<Rightarrow> (nat \<Rightarrow> nat) \<Rightarrow> nat
   \<Rightarrow> (error + WheelSection \<times> real) \<times> ChanceWheelBot" where
  "add_section self guild_id n p c rnds rnd =
     (case get_wheel_sections self guild_id rnds of
        (sections, self1) \<Rightarrow>
          if p \<le> 0 \<or> p > 100 then (Inl InvalidPercentage, self1)
          else if list_ex (name_matches n) sections then (Inl DuplicateName, self1)
          else
            (let current_total = calculate_total_percentage sections
             in if fadd current_total p > 100
                then (Inl (PercentageBudgetExceeded current_total), self1)
                else
                  (let section = new_section n p c rnd;
                       sections' = sections @ [section]
                   in (Inr (section, calculate_total_percentage sections'),
                       save_wheel_sections self1 guild_id sections'))))"

text \<open>The search loop of \<open>remove_section\<close> and \<open>edit_section\<close>: the position of the
  first section whose lower-cased name is the lower-cased argument.\<close>

fun find_section :: "string \<Rightarrow> WheelSection list \<Rightarrow> nat option" where
  "find_section n [] = None"
| "find_section n (s # ss) =
     (if name_matches n s then Some 0 else map_option Suc (find_section n ss))"

text \<open>\<open>sections.remove(section_to_remove)\<close>: sections compare by identity, so the
  element removed is the one found, at its position.\<close>

definition remove_at :: "nat \<Rightarrow> 'a list \<Rightarrow> 'a list" where
  "remove_at i xs = take i xs @ drop (Suc i) xs"

text \<open>On success \<open>remove_section\<close> yields the section removed, the number of sections
  left and the new total.\<close>

definition remove_section ::
  "ChanceWheelBot \<Rightarrow> int \<Rightarrow> string \<Rightarrow> (nat \<Rightarrow> nat)
   \<Rightarrow> (error + WheelSection \<times> nat \<times> real) \<times> ChanceWheelBot" where
  "remove_section self guild_id n rnds =
     (case get_wheel_sections self guild_id rnds of
        (sections, self1) \<Rightarrow>
          (case find_section n sections of
             None \<Rightarrow> (Inl SectionNotFound, self1)
           | Some i \<Rightarrow>
               (let sections' = remove_at i sections
                in (Inr (sections ! i, length sections', calculate_total_percentage sections'),
                    save_wheel_sections self1 guild_id sections'))))"

text \<open>On success \<open>edit_section\<close> yields the edited section and the new total.\<close>

definition edit_section ::
  "ChanceWheelBot \<Rightarrow> int \<Rightarrow> string \<Rightarrow> real \<Rightarrow> string \<Rightarrow> (nat \<Rightarrow> nat) \<Rightarrow> nat
   \<Rightarrow> (error + WheelSection \<times> real) \<times> ChanceWheelBot" where
  "edit_section self guild_id n new_percentage new_color rnds rnd =
     (case get_wheel_sections self guild_id rnds of
        (sections, self1) \<Rightarrow>
          (case find_section n sections of
             None \<Rightarrow> (Inl SectionNotFound, self1)
           | Some i \<Rightarrow>
               if new_percentage \<le> 0 \<or> new_percentage > 100
               then (Inl InvalidPercentage, self1)
               else
                 (let section_to_edit = sections ! i;
                      current_total =
                        fsub (calculate_total_percentage sections) (percentage section_to_edit)
                  in if fadd current_total new_percentage > 100
                     then (Inl (PercentageBudgetExceeded current_total), self1)
                     else
                       (let edited = section_to_edit
                              \<lparr>percentage := new_percentage,
                               color := parse_color new_color rnd\<rparr>;
                            sections' = sections[i := edited]
                        in (Inr (edited, calculate_total_percentage sections'),
                            save_wheel_sections self1 guild_id sections')))))"

subsection \<open>\<open>WheelRenderer\<close>: the pie slices\<close>

text \<open>
  Of \<open>create_wheel_image\<close> the model keeps the calls of \<open>_draw_pie_slice\<close>, in order,
  with their arguments; the border, the labels, the hub, the pointer and the encoding
  of the picture are left out. \<open>_draw_pie_slice\<close> hands the fill colour to Pillow's
  \<open>pieslice\<close>, which raises \<open>ValueError\<close> on a colour string it cannot parse: \<open>getrgb c\<close>
  says that Pillow accepts \<open>c\<close>. The outline colours \<open>red\<close> and \<open>black\<close> are names Pillow
  knows.
\<close>

text \<open>A winner that counts as none (\<open>if not winner\<close>, \<open>winner and ...\<close>): true of \<open>None\<close> and of the empty string.\<close>

definition falsy :: "string option \<Rightarrow> bool" where
  "falsy winner = (case winner of None \<Rightarrow> True | Some w \<Rightarrow> w = [])"

record pie_slice =
  start_angle :: real
  end_angle :: real
  fill_color :: string
  outline_color :: string
  outline_width :: nat

definition is_winner :: "string option \<Rightarrow> WheelSection \<Rightarrow> bool" where
  "is_winner winner section = (\<not> falsy winner \<and> Some (name section) = winner)"

text \<open>The loop over the sections, \<open>current_angle\<close> the angle on entry.\<close>

fun draw_sections ::
  "(string \<Rightarrow> bool) \<Rightarrow> real \<Rightarrow> string option \<Rightarrow> WheelSection list
   \<Rightarrow> error + pie_slice list" where
  "draw_sections getrgb current_angle winner [] = Inr []"
| "draw_sections getrgb current_angle winner (section # rest) =
     (let section_angle = fmul (fdiv (percentage section) 100) 360
      in if \<not> getrgb (color section) then Inl ValueError
         else
           (case draw_sections getrgb (fadd current_angle section_angle) winner rest of
              Inl e \<Rightarrow> Inl e
            | Inr slices \<Rightarrow>
                Inr (\<lparr>start_angle = current_angle,
                      end_angle = fadd current_angle section_angle,
                      fill_color = color section,
                      outline_color = (if is_winner winner section then ''red'' else ''black''),
                      outline_width = (if is_winner winner section then 4 else 2)\<rparr>
                     # slices)))"

definition create_wheel_image ::
  "(string \<Rightarrow> bool) \<Rightarrow> WheelSection list \<Rightarrow> string option \<Rightarrow> error + pie_slice list" where
  "create_wheel_image getrgb sections winner =
     (if sections = [] then Inr [] else draw_sections getrgb 0 winner sections)"

subsection \<open>\<open>spin_wheel\<close>\<close>

text \<open>The selection loop: \<open>rand_num\<close> is the draw, \<open>current_sum\<close> the running sum on
  entry. The result is \<open>winner\<close> after the loop, \<open>None\<close> if no section was reached.\<close>

fun spin_loop :: "real \<Rightarrow> real \<Rightarrow> WheelSection list \<Rightarrow> string option" where
  "spin_loop rand_num current_sum [] = None"
| "spin_loop rand_num current_sum (section # rest) =
     (if rand_num \<le> fadd current_sum (percentage section) then Some (name section)
      else spin_loop rand_num (fadd current_sum (percentage section)) rest)"

text \<open>The loop followed by the fallback: the name announced as the winner.\<close>

definition pick_winner :: "real \<Rightarrow> WheelSection list \<Rightarrow> string" where
  "pick_winner rand_num sections =
     (let winner = spin_loop rand_num 0 sections
      in if falsy winner then name (hd sections) else the winner)"

text \<open>\<open>rand_num\<close> is what \<open>random.uniform(0, total_percentage)\<close> returns. The wheel is
  drawn with the winner highlighted before the result is put together. On success
  \<open>spin_wheel\<close> yields the winner's name and the section shown as the winning section,
  the first one of that name.\<close>

definition spin_wheel ::
  "(string \<Rightarrow> bool) \<Rightarrow> ChanceWheelBot \<Rightarrow> int \<Rightarrow> (nat \<Rightarrow> nat) \<Rightarrow> real
   \<Rightarrow> (error + string \<times> WheelSection) \<times> ChanceWheelBot" where
  "spin_wheel getrgb self guild_id rnds rand_num =
     (case get_wheel_sections self guild_id rnds of
        (sections, self1) \<Rightarrow>
          if sections = [] then (Inl EmptyWheel, self1)
          else
            (let total_percentage = calculate_total_percentage sections
             in if total_percentage < 100 then (Inl (IncompleteWheel total_percentage), self1)
                else
                  (let winner = pick_winner rand_num sections
                   in case create_wheel_image getrgb sections (Some winner) of
                        Inl e \<Rightarrow> (Inl e, self1)
                      | Inr wheel_image \<Rightarrow>
                          (case find (\<lambda>s. name s = winner) sections of
                             None \<Rightarrow> (Inl StopIteration, self1)
                           | Some winner_section \<Rightarrow>
                               (Inr (winner, winner_section), self1)))))"

subsection \<open>Runs of commands\<close>

text \<open>A command with its arguments, the guild first; the last arguments are the
  values the random source returns while the command runs.\<close>

datatype command =
    CreateWheel int
  | AddSection int string real string "nat \<Rightarrow> nat" nat
  | RemoveSection int string "nat \<Rightarrow> nat"
  | EditSection int string real string "nat \<Rightarrow> nat" nat

text \<open>Whether the command reports success, and the state it leaves.\<close>

fun run_command :: "ChanceWheelBot \<Rightarrow> command \<Rightarrow> bool \<times> ChanceWheelBot" where
  "run_command self (CreateWheel g) = (True, create_wheel self g)"
| "run_command self (AddSection g n p c rnds rnd) =
     (case add_section self g n p c rnds rnd of (res, self') \<Rightarrow> (\<not> isl res, self'))"
| "run_command self (RemoveSection g n rnds) =
     (case remove_section self g n rnds of (res, self') \<Rightarrow> (\<not> isl res, self'))"
| "run_command self (EditSection g n p c rnds rnd) =
     (case edit_section self g n p c rnds rnd of (res, self') \<Rightarrow> (\<not> isl res, self'))"

text \<open>A run in which every command reports success; \<open>None\<close> if one does not.\<close>

fun run_commands :: "ChanceWheelBot \<Rightarrow> command list \<Rightarrow> ChanceWheelBot option" where
  "run_commands self [] = Some self"
| "run_commands self (c # cs) =
     (case run_command self c of
        (True, self') \<Rightarrow> run_commands self' cs
      | (False, _) \<Rightarrow> None)"

text \<open>A fresh process on an empty database: every guild's wheel is empty.\<close>

definition initial_bot :: ChanceWheelBot where
  "initial_bot = \<lparr>wheels = Map.empty, database = Map.empty\<rparr>"

subsection \<open>Notions of the specification\<close>

text \<open>The cumulative sum of the percentages up to and including position \<open>i\<close>, summed
  as the total is.\<close>

definition cumulative :: "WheelSection list \<Rightarrow> nat \<Rightarrow> real" where
  "cumulative sections i = calculate_total_percentage (take (Suc i) sections)"

text \<open>The winner as the specification words it: the first section, in list order, whose
  cumulative sum is at least the draw.\<close>

definition spec_winner :: "real \<Rightarrow> WheelSection list \<Rightarrow> WheelSection option" where
  "spec_winner r sections =
     map_option (nth sections) (find (\<lambda>i. r \<le> cumulative sections i) [0..<length sections])"

text \<open>The pattern \<open>#\<close> followed by exactly six hexadecimal digits.\<close>

definition hex_pattern :: "string \<Rightarrow> bool" where
  "hex_pattern s =
     (case s of [] \<Rightarrow> False
      | c # ds \<Rightarrow> c = CHR ''#'' \<and> length ds = 6 \<and> list_all is_hex_digit ds)"

text \<open>The canonical colours of the data model: \<open>#\<close> and six digits out of \<open>0-9A-F\<close>.\<close>

definition is_canonical_digit :: "char \<Rightarrow> bool" where
  "is_canonical_digit c = ((48 \<le> ord c \<and> ord c \<le> 57) \<or> (65 \<le> ord c \<and> ord c \<le> 70))"

definition canonical_color :: "string \<Rightarrow> bool" where
  "canonical_color s =
     (case s of [] \<Rightarrow> False
      | c # ds \<Rightarrow> c = CHR ''#'' \<and> length ds = 6 \<and> list_all is_canonical_digit ds)"

text \<open>The angle a section spans, in degrees, \<open>(percentage / 100) * 360\<close> in float
  arithmetic, and the span of a slice drawn.\<close>

definition span_of :: "WheelSection \<Rightarrow> real" where
  "span_of section = fmul (fdiv (percentage section) 100) 360"

definition slice_span :: "pie_slice \<Rightarrow> real" where
  "slice_span sl = end_angle sl - start_angle sl"

section \<open>Properties\<close>

subsection \<open>Rounding\<close>

text \<open>\<open>ilog2\<close> is the exponent it is meant to be, and rounding stays within half a
  spacing.\<close>

lemma bit_length_pos: "0 < n \<Longrightarrow> 0 < bit_length n"
  by (subst bit_length.simps) simp

lemma bit_length_bounds:
  "0 < n \<Longrightarrow> 2 ^ (bit_length n - 1) \<le> n \<and> n < 2 ^ bit_length n"
proof (induction n rule: bit_length.induct)
  case (1 n)
  show ?case
  proof (cases "n div 2 = 0")
    case True
    with 1(2) have "n = 1" by (cases n) auto
    moreover have "bit_length (Suc 0) = Suc 0"
      by (simp add: bit_length.simps[of "Suc 0"] bit_length.simps[of 0])
    ultimately show ?thesis by simp
  next
    case False
    then have pos: "0 < n div 2" by simp
    from 1(2) have n0: "n \<noteq> 0" by simp
    from 1(1)[OF n0 pos] have lo: "2 ^ (bit_length (n div 2) - 1) \<le> n div 2"
      and hi: "n div 2 < 2 ^ bit_length (n div 2)" by auto
    have b: "bit_length n = Suc (bit_length (n div 2))"
      using n0 by (subst bit_length.simps) simp
    from bit_length_pos[OF pos] obtain k where k: "bit_length (n div 2) = Suc k"
      by (cases "bit_length (n div 2)") auto
    from lo k have "2 * 2 ^ k \<le> 2 * (n div 2)" by simp
    also have "\<dots> \<le> n" by simp
    finally have l: "2 ^ (bit_length n - 1) \<le> n" by (simp add: b k)
    from hi have "n div 2 + 1 \<le> 2 ^ bit_length (n div 2)" by simp
    then have "2 * (n div 2) + 2 \<le> 2 * 2 ^ bit_length (n div 2)" by simp
    moreover have "n < 2 * (n div 2) + 2" by presburger
    ultimately have "n < 2 ^ bit_length n" by (simp add: b)
    with l show ?thesis by simp
  qed
qed

lemma ilog2_bounds:
  assumes "0 < x"
  shows "pow2 (ilog2 x) \<le> x \<and> x < pow2 (ilog2 x + 1)"
proof (cases "1 \<le> x")
  case True
  define n where "n = nat \<lfloor>x\<rfloor>"
  from True have fl1: "1 \<le> \<lfloor>x\<rfloor>" by simp
  then have npos: "0 < n" by (simp add: n_def)
  have nx: "real n \<le> x" using fl1 by (simp add: n_def)
  have xn: "x < real n + 1" using fl1 unfolding n_def by linarith
  from bit_length_bounds[OF npos] have lo: "2 ^ (bit_length n - 1) \<le> n"
    and hi: "n < 2 ^ bit_length n" by auto
  from bit_length_pos[OF npos] obtain k where k: "bit_length n = Suc k"
    by (cases "bit_length n") auto
  have il: "ilog2 x = int k" using True by (simp add: ilog2_def n_def[symmetric] k)
  from lo k have "(2::real) ^ k \<le> real n"
    by (metis diff_Suc_1 of_nat_le_iff of_nat_numeral of_nat_power)
  with nx have "2 ^ k \<le> x" by linarith
  then have a: "pow2 (ilog2 x) \<le> x" by (simp add: il pow2_def)
  from hi k have "n + 1 \<le> 2 ^ Suc k" by simp
  then have "real (n + 1) \<le> 2 ^ Suc k"
    by (metis of_nat_le_iff of_nat_numeral of_nat_power)
  then have "real n + 1 \<le> 2 ^ Suc k" by simp
  with xn have "x < 2 ^ Suc k" by linarith
  then have b: "x < pow2 (ilog2 x + 1)" by (simp add: il pow2_def nat_add_distrib)
  from a b show ?thesis by simp
next
  case False
  define y where "y = 1 / x"
  from False assms have y1: "1 < y" by (simp add: y_def)
  define n where "n = nat (\<lceil>y\<rceil> - 1)"
  from y1 have c2: "2 \<le> \<lceil>y\<rceil>" by linarith
  then have npos: "0 < n" by (simp add: n_def)
  have ny: "real n < y" using c2 unfolding n_def by linarith
  have yn: "y \<le> real n + 1" using c2 unfolding n_def by linarith
  from bit_length_bounds[OF npos] have lo: "2 ^ (bit_length n - 1) \<le> n"
    and hi: "n < 2 ^ bit_length n" by auto
  from bit_length_pos[OF npos] obtain k where k: "bit_length n = Suc k"
    by (cases "bit_length n") auto
  have il: "ilog2 x = - int (Suc k)"
    using False by (simp add: ilog2_def y_def[symmetric] n_def[symmetric] k)
  from lo k have "(2::real) ^ k \<le> real n"
    by (metis diff_Suc_1 of_nat_le_iff of_nat_numeral of_nat_power)
  with ny have ky: "2 ^ k < y" by linarith
  from hi k have "n + 1 \<le> 2 ^ Suc k" by simp
  then have "real (n + 1) \<le> 2 ^ Suc k"
    by (metis of_nat_le_iff of_nat_numeral of_nat_power)
  then have "real n + 1 \<le> 2 ^ Suc k" by simp
  with yn have yk: "y \<le> 2 ^ Suc k" by linarith
  have xy: "x = 1 / y" using assms by (simp add: y_def)
  have ypos: "0 < y" using y1 by simp
  have a: "pow2 (ilog2 x) \<le> x"
  proof -
    have "1 / 2 ^ Suc k \<le> 1 / y" using yk ypos by (simp add: frac_le)
    moreover have "nat (int k + 1) = Suc k" by simp
    then have "pow2 (ilog2 x) = 1 / 2 ^ Suc k" by (simp add: il pow2_def)
    ultimately show ?thesis using xy by simp
  qed
  have b: "x < pow2 (ilog2 x + 1)"
  proof -
    have "1 / y < 1 / 2 ^ k" using ky by (simp add: frac_less2)
    moreover have "pow2 (ilog2 x + 1) = 1 / 2 ^ k" by (simp add: il pow2_def)
    ultimately show ?thesis using xy by simp
  qed
  from a b show ?thesis by simp
qed

lemma round_half_even_error: "\<bar>of_int (round_half_even y) - y\<bar> \<le> 1 / 2"
  by (auto simp: round_half_even_def Let_def)

lemma pow2_pos: "0 < pow2 e"
  by (simp add: pow2_def)

text \<open>The rounded value is a multiple of the spacing and lies within half a spacing.\<close>

lemma fl_error:
  assumes "x \<noteq> 0"
  shows "\<bar>fl x - x\<bar> \<le> pow2 (max (ilog2 \<bar>x\<bar> - 52) (- 1074)) / 2"
proof -
  let ?e = "max (ilog2 \<bar>x\<bar> - 52) (- 1074)"
  let ?m = "round_half_even (\<bar>x\<bar> / pow2 ?e)"
  have f: "fl x = sgn x * of_int ?m * pow2 ?e"
    using assms by (simp add: fl_def Let_def)
  have "\<bar>fl x - x\<bar> = \<bar>sgn x * (of_int ?m * pow2 ?e - \<bar>x\<bar>)\<bar>"
    using assms by (simp add: f algebra_simps sgn_if abs_if)
  also have "\<dots> = \<bar>of_int ?m * pow2 ?e - \<bar>x\<bar>\<bar>"
    using assms by (simp add: abs_mult sgn_if)
  also have "\<dots> = \<bar>of_int ?m - \<bar>x\<bar> / pow2 ?e\<bar> * pow2 ?e"
  proof -
    have "of_int ?m * pow2 ?e - \<bar>x\<bar> = (of_int ?m - \<bar>x\<bar> / pow2 ?e) * pow2 ?e"
      using pow2_pos[of ?e] by (simp add: field_simps)
    then show ?thesis using pow2_pos[of ?e] by (simp add: abs_mult)
  qed
  also have "\<dots> \<le> (1 / 2) * pow2 ?e"
    using round_half_even_error[of "\<bar>x\<bar> / pow2 ?e"] pow2_pos[of ?e]
    by (intro mult_right_mono) simp_all
  finally show ?thesis by simp
qed

subsection \<open>Evaluating float arithmetic\<close>

lemma bit_length_numeral: "bit_length (numeral n) = Suc (bit_length (numeral n div 2))"
  by (subst bit_length.simps) simp

lemma bit_length_small: "bit_length 0 = 0" "bit_length (Suc 0) = 1" "bit_length 1 = 1"
  by (simp_all add: bit_length.simps)

lemmas float_eval =
  fadd_def fsub_def fmul_def fdiv_def fl_def ilog2_def round_half_even_def pow2_def Let_def
  bit_length_numeral bit_length_small

text \<open>The doubles that Python writes \<open>0.1\<close>, \<open>0.2\<close> and \<open>23.6\<close>, and two sums.\<close>

lemma fl_examples:
  "fl (1 / 10) = 3602879701896397 / 2 ^ 55"
  "fl (1 / 5) = 3602879701896397 / 2 ^ 54"
  "fl (118 / 5) = 3321404725185741 / 2 ^ 47"
  "fadd (fl (1 / 10)) (fl (1 / 5)) = 1351079888211149 / 2 ^ 52"
  "fadd 100 (1 / 2 ^ 60) = 100"
  by (simp_all add: float_eval)

lemma calculate_total_percentage_Nil: "calculate_total_percentage [] = 0"
  by (simp add: calculate_total_percentage_def)

lemma calculate_total_percentage_snoc:
  "calculate_total_percentage (sections @ [s])
     = fadd (calculate_total_percentage sections) (percentage s)"
  by (simp add: calculate_total_percentage_def)

subsection \<open>Reading the cache\<close>

lemma get_wheel_sections_cached:
  "get_wheel_sections self g rnds = (sections, self1) \<Longrightarrow>
     wheels self1 g = Some sections \<and> database self1 = database self"
  by (auto simp: get_wheel_sections_def Let_def split: option.splits)

lemma get_wheel_sections_again:
  "get_wheel_sections self g rnds = (sections, self1) \<Longrightarrow>
     get_wheel_sections self1 g rnds' = (sections, self1)"
  by (auto simp: get_wheel_sections_def Let_def split: option.splits)

lemma get_wheel_sections_hit:
  "wheels self g = Some sections \<Longrightarrow> get_wheel_sections self g rnds = (sections, self)"
  by (simp add: get_wheel_sections_def)

subsection \<open>Drawing the slices\<close>

lemma draw_sections_error:
  "draw_sections getrgb a w sections = Inl e \<Longrightarrow> e = ValueError"
  by (induction sections arbitrary: a) (auto simp: Let_def split: if_splits sum.splits)

lemma create_wheel_image_error:
  "create_wheel_image getrgb sections winner = Inl e \<Longrightarrow> e = ValueError"
  by (auto simp: create_wheel_image_def dest: draw_sections_error split: if_splits)

lemma draw_sections_rejects:
  "\<exists>s \<in> set sections. \<not> getrgb (color s) \<Longrightarrow>
     draw_sections getrgb a w sections = Inl ValueError"
proof (induction sections arbitrary: a)
  case Nil
  then show ?case by simp
next
  case (Cons s ss)
  show ?case
  proof (cases "getrgb (color s)")
    case True
    with Cons.prems have "\<exists>x \<in> set ss. \<not> getrgb (color x)" by auto
    from Cons.IH[OF this] True show ?thesis by (simp add: Let_def)
  next
    case False
    then show ?thesis by (simp add: Let_def)
  qed
qed

lemma draw_sections_accepts:
  "\<forall>s \<in> set sections. getrgb (color s) \<Longrightarrow>
     \<exists>slices. draw_sections getrgb a w sections = Inr slices
       \<and> length slices = length sections
       \<and> (\<forall>i < length sections.
            start_angle (slices ! i) = foldl fadd a (map span_of (take i sections))
            \<and> end_angle (slices ! i) = fadd (start_angle (slices ! i)) (span_of (sections ! i))
            \<and> fill_color (slices ! i) = color (sections ! i))"
proof (induction sections arbitrary: a)
  case Nil
  then show ?case by simp
next
  case (Cons s ss)
  then have ok: "getrgb (color s)" and rest: "\<forall>x \<in> set ss. getrgb (color x)" by auto
  from Cons.IH[OF rest, of "fadd a (span_of s)"] obtain slices where
    d: "draw_sections getrgb (fadd a (span_of s)) w ss = Inr slices"
    and len: "length slices = length ss"
    and nth: "\<forall>i < length ss.
            start_angle (slices ! i) = foldl fadd (fadd a (span_of s)) (map span_of (take i ss))
            \<and> end_angle (slices ! i) = fadd (start_angle (slices ! i)) (span_of (ss ! i))
            \<and> fill_color (slices ! i) = color (ss ! i)"
    by blast
  let ?sl = "\<lparr>start_angle = a, end_angle = fadd a (span_of s), fill_color = color s,
              outline_color = (if is_winner w s then ''red'' else ''black''),
              outline_width = (if is_winner w s then 4 else 2)\<rparr>"
  have "draw_sections getrgb a w (s # ss) = Inr (?sl # slices)"
    using ok d by (simp add: Let_def span_of_def)
  moreover have "length (?sl # slices) = length (s # ss)" using len by simp
  moreover have "\<forall>i < length (s # ss).
            start_angle ((?sl # slices) ! i) = foldl fadd a (map span_of (take i (s # ss)))
            \<and> end_angle ((?sl # slices) ! i)
                = fadd (start_angle ((?sl # slices) ! i)) (span_of ((s # ss) ! i))
            \<and> fill_color ((?sl # slices) ! i) = color ((s # ss) ! i)"
  proof (intro allI impI)
    fix i assume "i < length (s # ss)"
    then show "start_angle ((?sl # slices) ! i) = foldl fadd a (map span_of (take i (s # ss)))
            \<and> end_angle ((?sl # slices) ! i)
                = fadd (start_angle ((?sl # slices) ! i)) (span_of ((s # ss) ! i))
            \<and> fill_color ((?sl # slices) ! i) = color ((s # ss) ! i)"
      using nth by (cases i) simp_all
  qed
  ultimately show ?case by blast
qed

lemma create_wheel_image_rejects:
  "\<exists>s \<in> set sections. \<not> getrgb (color s) \<Longrightarrow>
     create_wheel_image getrgb sections winner = Inl ValueError"
  using draw_sections_rejects[of sections getrgb 0 winner]
  by (auto simp: create_wheel_image_def)

lemma create_wheel_image_accepts:
  "\<forall>s \<in> set sections. getrgb (color s) \<Longrightarrow>
     \<exists>slices. create_wheel_image getrgb sections winner = Inr slices"
  using draw_sections_accepts[of sections getrgb 0 winner]
  by (auto simp: create_wheel_image_def)

subsection \<open>Spinning a wheel that is empty or incomplete\<close>

text \<open>
  Claim C5. Let \<open>sections\<close> be the list \<open>spin_wheel\<close> reads for the guild. The spin
  fails with \<open>EmptyWheel\<close> exactly when the list is empty, and with \<open>IncompleteWheel t\<close>
  exactly when the list is not empty, its total is below 100 and \<open>t\<close> is that total.
  In both cases the state left is the state after the read: the guild's cached list is
  \<open>sections\<close> and the database is as before.
\<close>

theorem spin_wheel_failures:
  "get_wheel_sections self g rnds = (sections, self1) \<Longrightarrow>
     (fst (spin_wheel getrgb self g rnds r) = Inl EmptyWheel \<longleftrightarrow> sections = []) \<and>
     (fst (spin_wheel getrgb self g rnds r) = Inl (IncompleteWheel t) \<longleftrightarrow>
        sections \<noteq> [] \<and> calculate_total_percentage sections < 100
        \<and> t = calculate_total_percentage sections) \<and>
     (sections = [] \<or> calculate_total_percentage sections < 100 \<longrightarrow>
        snd (spin_wheel getrgb self g rnds r) = self1 \<and> wheels self1 g = Some sections
        \<and> database self1 = database self)"
  by (auto simp: spin_wheel_def Let_def split: option.splits sum.splits
           dest: get_wheel_sections_cached create_wheel_image_error)

theorem spin_wheel_failures_witness:
  "get_wheel_sections
     \<lparr>wheels = [7 \<mapsto> [\<lparr>name = ''A'', percentage = 99, color = ''#FF0000''\<rparr>]],
      database = Map.empty\<rparr> 7 (\<lambda>i. 0)
   = ([\<lparr>name = ''A'', percentage = 99, color = ''#FF0000''\<rparr>],
      \<lparr>wheels = [7 \<mapsto> [\<lparr>name = ''A'', percentage = 99, color = ''#FF0000''\<rparr>]],
       database = Map.empty\<rparr>)
   \<and> fst (spin_wheel hex_pattern
        \<lparr>wheels = [7 \<mapsto> [\<lparr>name = ''A'', percentage = 99, color = ''#FF0000''\<rparr>]],
         database = Map.empty\<rparr> 7 (\<lambda>i. 0) 50) = Inl (IncompleteWheel 99)
   \<and> fst (spin_wheel hex_pattern \<lparr>wheels = [7 \<mapsto> []], database = Map.empty\<rparr> 7 (\<lambda>i. 0) 50)
       = Inl EmptyWheel"
proof -
  let ?A = "\<lparr>name = ''A'', percentage = 99, color = ''#FF0000''\<rparr>"
  let ?S = "\<lparr>wheels = [7 \<mapsto> [?A]], database = Map.empty\<rparr>"
  let ?E = "\<lparr>wheels = [7 \<mapsto> []], database = (Map.empty :: WheelDatabase)\<rparr>"
  have h: "get_wheel_sections ?S 7 (\<lambda>i. 0) = ([?A], ?S)"
    by (simp add: get_wheel_sections_def)
  have e: "get_wheel_sections ?E 7 (\<lambda>i. 0) = ([], ?E)"
    by (simp add: get_wheel_sections_def)
  have t: "calculate_total_percentage [?A] = 99"
    by (simp add: calculate_total_percentage_def float_eval)
  show ?thesis
    using h t spin_wheel_failures [OF h, of hex_pattern 50 99]
      spin_wheel_failures [OF e, of hex_pattern 50 0]
    by simp
qed

subsection \<open>The winner of a spin\<close>

lemma parse_color_red: "parse_color ''red'' rnd = ''#FF0000''"
  by code_simp

lemma parse_color_blue: "parse_color ''blue'' rnd = ''#0000FF''"
  by code_simp

lemma hex_pattern_red_blue: "hex_pattern ''#FF0000''" "hex_pattern ''#0000FF''"
  by code_simp+

lemma spin_loop_in_list:
  "spin_loop r acc sections = Some w \<Longrightarrow> \<exists>s \<in> set sections. name s = w"
  by (induction sections arbitrary: acc) (auto split: if_splits)


lemma find_by_name_distinct:
  "distinct (map name sections) \<Longrightarrow> s \<in> set sections \<Longrightarrow>
     find (\<lambda>x. name x = name s) sections = Some s"
  by (induction sections) auto

lemma pick_winner_in_list:
  assumes "sections \<noteq> []"
  shows "\<exists>s \<in> set sections. name s = pick_winner r sections"
proof (cases "falsy (spin_loop r 0 sections)")
  case True
  then show ?thesis using assms by (auto simp: pick_winner_def)
next
  case False
  then obtain w where "spin_loop r 0 sections = Some w"
    by (auto simp: falsy_def split: option.splits)
  then show ?thesis using False spin_loop_in_list[of r 0 sections w]
    by (auto simp: pick_winner_def)
qed

text \<open>Past its two checks \<open>spin_wheel\<close> succeeds when Pillow accepts every colour of the
  list, the name it picked being in the list, and ends in \<open>ValueError\<close> otherwise.\<close>

lemma spin_wheel_success:
  assumes "get_wheel_sections self g rnds = (sections, self1)"
    and "sections \<noteq> []" and "100 \<le> calculate_total_percentage sections"
    and "\<forall>s \<in> set sections. getrgb (color s)"
  shows "\<exists>s. find (\<lambda>s. name s = pick_winner r sections) sections = Some s
           \<and> spin_wheel getrgb self g rnds r = (Inr (pick_winner r sections, s), self1)"
proof -
  from pick_winner_in_list[OF assms(2), of r]
  obtain s where "find (\<lambda>s. name s = pick_winner r sections) sections = Some s"
    by (cases "find (\<lambda>s. name s = pick_winner r sections) sections")
       (auto simp: find_None_iff)
  moreover from create_wheel_image_accepts[OF assms(4), of "Some (pick_winner r sections)"]
  obtain slices where
    "create_wheel_image getrgb sections (Some (pick_winner r sections)) = Inr slices"
    by blast
  ultimately show ?thesis using assms(1-3)
    by (simp add: spin_wheel_def Let_def)
qed



text \<open>The loop finds the name of the section the specification describes.\<close>

lemma cumulative_Cons_0: "cumulative (s # ss) 0 = fadd 0 (percentage s)"
  by (simp add: cumulative_def calculate_total_percentage_def)

lemma find_map_index:
  "find P (map f xs) = map_option f (find (\<lambda>x. P (f x)) xs)"
  by (induction xs) auto

lemma spin_loop_find:
  "spin_loop r acc sections =
     map_option (\<lambda>i. name (sections ! i))
       (find (\<lambda>i. r \<le> foldl fadd acc (map percentage (take (Suc i) sections)))
          [0..<length sections])"
proof (induction sections arbitrary: acc)
  case Nil
  then show ?case by simp
next
  case (Cons s ss)
  have upt: "[0..<length (s # ss)] = 0 # map Suc [0..<length ss]"
    by (simp add: upt_conv_Cons map_Suc_upt del: upt_Suc)
  show ?case
    unfolding upt
    by (simp add: Cons.IH find_map_index comp_def option.map_comp)
qed

lemma spin_loop_spec_winner:
  "spin_loop r 0 sections = map_option name (spec_winner r sections)"
  by (simp add: spin_loop_find spec_winner_def cumulative_def calculate_total_percentage_def
      option.map_comp comp_def)

lemma cumulative_last:
  "sections \<noteq> [] \<Longrightarrow>
     cumulative sections (length sections - 1) = calculate_total_percentage sections"
  by (simp add: cumulative_def)

lemma spec_winner_exists:
  assumes "sections \<noteq> []" and "r \<le> calculate_total_percentage sections"
  shows "\<exists>s \<in> set sections. spec_winner r sections = Some s"
proof -
  have "length sections - 1 \<in> set [0..<length sections]" using assms(1) by simp
  moreover have "r \<le> cumulative sections (length sections - 1)"
    using cumulative_last[OF assms(1)] assms(2) by simp
  ultimately have "find (\<lambda>i. r \<le> cumulative sections i) [0..<length sections] \<noteq> None"
    unfolding find_None_iff by blast
  then obtain i where i: "find (\<lambda>i. r \<le> cumulative sections i) [0..<length sections] = Some i"
    by auto
  then have "i < length sections" by (auto simp: find_Some_iff)
  with i show ?thesis by (auto simp: spec_winner_def)
qed

text \<open>With pairwise distinct names, none of them empty, and colours that Pillow accepts,
  the spin yields the section the specification describes.\<close>

lemma spin_wheel_spec_winner:
  assumes get: "get_wheel_sections self g rnds = (sections, self1)"
    and ne: "sections \<noteq> []" and tot: "100 \<le> calculate_total_percentage sections"
    and r: "r \<le> calculate_total_percentage sections"
    and dist: "distinct (map name sections)"
    and names: "\<forall>s \<in> set sections. name s \<noteq> []"
    and colors: "\<forall>s \<in> set sections. getrgb (color s)"
  shows "\<exists>s. spec_winner r sections = Some s
           \<and> fst (spin_wheel getrgb self g rnds r) = Inr (name s, s)"
proof -
  from spec_winner_exists[OF ne r] obtain s where
    s: "s \<in> set sections" "spec_winner r sections = Some s" by auto
  then have "spin_loop r 0 sections = Some (name s)" by (simp add: spin_loop_spec_winner)
  moreover have "name s \<noteq> []" using s names by auto
  ultimately have "pick_winner r sections = name s"
    by (simp add: pick_winner_def falsy_def)
  with spin_wheel_success[OF get ne tot colors, of r] find_by_name_distinct[OF dist s(1)] s
  show ?thesis by auto
qed



text \<open>
  Claim C1, at an input where it fails. The wheel is built by two \<open>add_section\<close>
  commands on a fresh bot: \<open>A\<close> with 50 and a section with the empty name with 50. For
  the draw 75 the first section whose cumulative sum reaches the draw is the second one
  (50 is below 75, 100 is not), and \<open>spin_wheel\<close> yields \<open>A\<close>: the name found by the loop
  is the empty string, which \<open>if not winner\<close> takes for no winner at all. The two colours
  are ones Pillow accepts. Lemma \<open>spin_wheel_spec_winner\<close> above shows that this is the
  only way to miss the section the specification describes, as long as the names are
  pairwise distinct and the wheel can be drawn.
\<close>

theorem spin_wheel_skips_empty_name:
  "getrgb ''#FF0000'' \<Longrightarrow> getrgb ''#0000FF'' \<Longrightarrow>
   run_commands initial_bot
     [AddSection 1 ''A'' 50 ''red'' (\<lambda>i. 0) 0, AddSection 1 '''' 50 ''blue'' (\<lambda>i. 0) 0]
   = Some \<lparr>wheels = [1 \<mapsto> [\<lparr>name = ''A'', percentage = 50, color = ''#FF0000''\<rparr>,
                           \<lparr>name = '''', percentage = 50, color = ''#0000FF''\<rparr>]],
           database = [1 \<mapsto> [(''A'', 50, ''#FF0000''), ('''', 50, ''#0000FF'')]]\<rparr>
   \<and> spec_winner 75 [\<lparr>name = ''A'', percentage = 50, color = ''#FF0000''\<rparr>,
                     \<lparr>name = '''', percentage = 50, color = ''#0000FF''\<rparr>]
     = Some \<lparr>name = '''', percentage = 50, color = ''#0000FF''\<rparr>
   \<and> fst (spin_wheel getrgb
        \<lparr>wheels = [1 \<mapsto> [\<lparr>name = ''A'', percentage = 50, color = ''#FF0000''\<rparr>,
                         \<lparr>name = '''', percentage = 50, color = ''#0000FF''\<rparr>]],
         database = [1 \<mapsto> [(''A'', 50, ''#FF0000''), ('''', 50, ''#0000FF'')]]\<rparr>
        1 (\<lambda>i. 0) 75)
     = Inr (''A'', \<lparr>name = ''A'', percentage = 50, color = ''#FF0000''\<rparr>)"
proof (intro conjI)
  show "run_commands initial_bot
     [AddSection 1 ''A'' 50 ''red'' (\<lambda>i. 0) 0, AddSection 1 '''' 50 ''blue'' (\<lambda>i. 0) 0]
   = Some \<lparr>wheels = [1 \<mapsto> [\<lparr>name = ''A'', percentage = 50, color = ''#FF0000''\<rparr>,
                           \<lparr>name = '''', percentage = 50, color = ''#0000FF''\<rparr>]],
           database = [1 \<mapsto> [(''A'', 50, ''#FF0000''), ('''', 50, ''#0000FF'')]]\<rparr>"
    by (simp add: initial_bot_def add_section_def get_wheel_sections_def load_wheel_def
      calculate_total_percentage_def new_section_def parse_color_red parse_color_blue
      save_wheel_sections_def save_wheel_def to_dict_def name_matches_def lower_def
      float_eval)
next
  show "spec_winner 75 [\<lparr>name = ''A'', percentage = 50, color = ''#FF0000''\<rparr>,
                     \<lparr>name = '''', percentage = 50, color = ''#0000FF''\<rparr>]
     = Some \<lparr>name = '''', percentage = 50, color = ''#0000FF''\<rparr>"
    by (simp add: spec_winner_def cumulative_def calculate_total_percentage_def
        upt_rec[of 0] upt_rec[of 1] upt_rec[of 2] float_eval)
next
  assume c: "getrgb ''#FF0000''" "getrgb ''#0000FF''"
  let ?A = "\<lparr>name = ''A'', percentage = 50, color = ''#FF0000''\<rparr>"
  let ?E = "\<lparr>name = '''', percentage = 50, color = ''#0000FF''\<rparr>"
  let ?S = "\<lparr>wheels = [1 \<mapsto> [?A, ?E]],
            database = [1 \<mapsto> [(''A'', 50, ''#FF0000''), ('''', 50, ''#0000FF'')]]\<rparr>"
  have h: "get_wheel_sections ?S 1 (\<lambda>i. 0) = ([?A, ?E], ?S)"
    by (simp add: get_wheel_sections_def)
  have tot: "100 \<le> calculate_total_percentage [?A, ?E]"
    by (simp add: calculate_total_percentage_def float_eval)
  have colors: "\<forall>s \<in> set [?A, ?E]. getrgb (color s)" using c by simp
  have pick: "pick_winner 75 [?A, ?E] = ''A''"
    by (simp add: pick_winner_def falsy_def float_eval)
  from spin_wheel_success[OF h _ tot colors, of 75] pick
  show "fst (spin_wheel getrgb ?S 1 (\<lambda>i. 0) 75) = Inr (''A'', ?A)"
    by auto
qed

theorem spin_wheel_skips_empty_name_witness:
  "hex_pattern ''#FF0000'' \<and> hex_pattern ''#0000FF''
   \<and> fst (spin_wheel hex_pattern
        \<lparr>wheels = [1 \<mapsto> [\<lparr>name = ''A'', percentage = 50, color = ''#FF0000''\<rparr>,
                         \<lparr>name = '''', percentage = 50, color = ''#0000FF''\<rparr>]],
         database = [1 \<mapsto> [(''A'', 50, ''#FF0000''), ('''', 50, ''#0000FF'')]]\<rparr>
        1 (\<lambda>i. 0) 75)
     = Inr (''A'', \<lparr>name = ''A'', percentage = 50, color = ''#FF0000''\<rparr>)"
  using hex_pattern_red_blue
    spin_wheel_skips_empty_name [OF hex_pattern_red_blue(1) hex_pattern_red_blue(2)]
  by simp

text \<open>The examples of the specification: with \<open>A = 30\<close>, \<open>B = 30\<close> and \<open>C = 40\<close> the draw
  30 selects \<open>A\<close>, the draw 30.0001 selects \<open>B\<close> and the draw 100 selects \<open>C\<close>.\<close>

lemma spin_wheel_examples:
  assumes "getrgb ''#FF0000''" and "getrgb ''#0000FF''" and "getrgb ''#00FF00''"
  shows "fst (spin_wheel getrgb
          \<lparr>wheels = [1 \<mapsto> [\<lparr>name = ''A'', percentage = 30, color = ''#FF0000''\<rparr>,
            \<lparr>name = ''B'', percentage = 30, color = ''#0000FF''\<rparr>,
            \<lparr>name = ''C'', percentage = 40, color = ''#00FF00''\<rparr>]],
           database = Map.empty\<rparr> 1 rnds 30)
       = Inr (''A'', \<lparr>name = ''A'', percentage = 30, color = ''#FF0000''\<rparr>)"
    and "fst (spin_wheel getrgb
          \<lparr>wheels = [1 \<mapsto> [\<lparr>name = ''A'', percentage = 30, color = ''#FF0000''\<rparr>,
            \<lparr>name = ''B'', percentage = 30, color = ''#0000FF''\<rparr>,
            \<lparr>name = ''C'', percentage = 40, color = ''#00FF00''\<rparr>]],
           database = Map.empty\<rparr> 1 rnds (fl (300001 / 10000)))
       = Inr (''B'', \<lparr>name = ''B'', percentage = 30, color = ''#0000FF''\<rparr>)"
    and "fst (spin_wheel getrgb
          \<lparr>wheels = [1 \<mapsto> [\<lparr>name = ''A'', percentage = 30, color = ''#FF0000''\<rparr>,
            \<lparr>name = ''B'', percentage = 30, color = ''#0000FF''\<rparr>,
            \<lparr>name = ''C'', percentage = 40, color = ''#00FF00''\<rparr>]],
           database = Map.empty\<rparr> 1 rnds 100)
       = Inr (''C'', \<lparr>name = ''C'', percentage = 40, color = ''#00FF00''\<rparr>)"
proof -
  let ?A = "\<lparr>name = ''A'', percentage = 30, color = ''#FF0000''\<rparr>"
  let ?B = "\<lparr>name = ''B'', percentage = 30, color = ''#0000FF''\<rparr>"
  let ?C = "\<lparr>name = ''C'', percentage = 40, color = ''#00FF00''\<rparr>"
  let ?S = "\<lparr>wheels = [1 \<mapsto> [?A, ?B, ?C]], database = Map.empty\<rparr>"
  have h: "get_wheel_sections ?S 1 rnds = ([?A, ?B, ?C], ?S)"
    by (simp add: get_wheel_sections_def)
  have tot: "100 \<le> calculate_total_percentage [?A, ?B, ?C]"
    by (simp add: calculate_total_percentage_def float_eval)
  have colors: "\<forall>s \<in> set [?A, ?B, ?C]. getrgb (color s)" using assms by simp
  have p1: "pick_winner 30 [?A, ?B, ?C] = ''A''"
    by (simp add: pick_winner_def falsy_def float_eval)
  have p2: "pick_winner (fl (300001 / 10000)) [?A, ?B, ?C] = ''B''"
    by (simp add: pick_winner_def falsy_def float_eval)
  have p3: "pick_winner 100 [?A, ?B, ?C] = ''C''"
    by (simp add: pick_winner_def falsy_def float_eval)
  from spin_wheel_success[OF h _ tot colors, of 30] p1
  show "fst (spin_wheel getrgb ?S 1 rnds 30) = Inr (''A'', ?A)" by auto
  from spin_wheel_success[OF h _ tot colors, of "fl (300001 / 10000)"] p2
  show "fst (spin_wheel getrgb ?S 1 rnds (fl (300001 / 10000))) = Inr (''B'', ?B)" by auto
  from spin_wheel_success[OF h _ tot colors, of 100] p3
  show "fst (spin_wheel getrgb ?S 1 rnds 100) = Inr (''C'', ?C)" by auto
qed

subsection \<open>Searching a section by name\<close>

lemma find_section_Some:
  "find_section n sections = Some i \<Longrightarrow>
     i < length sections \<and> name_matches n (sections ! i)
     \<and> (\<forall>j < i. \<not> name_matches n (sections ! j))"
proof (induction sections arbitrary: i)
  case Nil
  then show ?case by simp
next
  case (Cons s ss)
  show ?case
  proof (cases "name_matches n s")
    case True
    with Cons.prems show ?thesis by simp
  next
    case False
    with Cons.prems obtain k where k: "find_section n ss = Some k" "i = Suc k" by auto
    from Cons.IH[OF k(1)] False k(2) show ?thesis
      by (auto simp: nth_Cons split: nat.splits)
  qed
qed

lemma find_section_None:
  "find_section n sections = None \<longleftrightarrow> \<not> list_ex (name_matches n) sections"
  by (induction sections) auto

lemma find_section_split:
  assumes "find_section n sections = Some i"
  shows "sections = take i sections @ sections ! i # drop (Suc i) sections
         \<and> (\<forall>x \<in> set (take i sections). \<not> name_matches n x)
         \<and> name_matches n (sections ! i)"
proof -
  from find_section_Some[OF assms] have i: "i < length sections"
    and m: "name_matches n (sections ! i)"
    and b: "\<forall>j < i. \<not> name_matches n (sections ! j)" by auto
  have "\<forall>x \<in> set (take i sections). \<not> name_matches n x"
  proof
    fix x assume "x \<in> set (take i sections)"
    then obtain j where "j < length (take i sections)" "x = take i sections ! j"
      by (auto simp: in_set_conv_nth)
    with b i show "\<not> name_matches n x" by auto
  qed
  with i m show ?thesis by (simp add: id_take_nth_drop[symmetric])
qed

subsection \<open>\<open>edit_section\<close>: the budget check\<close>

text \<open>
  Claim C3, as amended. Let \<open>sections\<close> be the list \<open>edit_section\<close> reads and \<open>i\<close> the
  position of the section found for the name. The edit fails with
  \<open>PercentageBudgetExceeded t\<close> exactly when the new percentage is in range
  (\<open>0 < p \<le> 100\<close>), the total less the section's own percentage, plus the new
  percentage, exceeds 100 (in float arithmetic, as the code computes it), and \<open>t\<close> is
  the total less the section's own percentage. It fails with \<open>InvalidPercentage\<close>
  exactly when the new percentage is out of range. The witness is the example of the
  specification: with \<open>A = 20\<close> and \<open>B = 80\<close>, editing \<open>A\<close> to 30 fails and editing
  \<open>A\<close> to 20 succeeds.
\<close>

theorem edit_section_budget:
  "get_wheel_sections self g rnds = (sections, self1) \<Longrightarrow>
   find_section n sections = Some i \<Longrightarrow>
     (fst (edit_section self g n p c rnds rnd) = Inl (PercentageBudgetExceeded t) \<longleftrightarrow>
        0 < p \<and> p \<le> 100
        \<and> fadd (fsub (calculate_total_percentage sections) (percentage (sections ! i))) p > 100
        \<and> t = fsub (calculate_total_percentage sections) (percentage (sections ! i))) \<and>
     (fst (edit_section self g n p c rnds rnd) = Inl InvalidPercentage \<longleftrightarrow>
        p \<le> 0 \<or> 100 < p)"
  by (auto simp: edit_section_def Let_def)

theorem edit_section_budget_witness:
  "get_wheel_sections
     \<lparr>wheels = [1 \<mapsto> [\<lparr>name = ''A'', percentage = 20, color = ''#FF0000''\<rparr>,
                      \<lparr>name = ''B'', percentage = 80, color = ''#0000FF''\<rparr>]],
      database = Map.empty\<rparr> 1 (\<lambda>i. 0)
   = ([\<lparr>name = ''A'', percentage = 20, color = ''#FF0000''\<rparr>,
       \<lparr>name = ''B'', percentage = 80, color = ''#0000FF''\<rparr>],
      \<lparr>wheels = [1 \<mapsto> [\<lparr>name = ''A'', percentage = 20, color = ''#FF0000''\<rparr>,
                       \<lparr>name = ''B'', percentage = 80, color = ''#0000FF''\<rparr>]],
       database = Map.empty\<rparr>)
   \<and> find_section ''a'' [\<lparr>name = ''A'', percentage = 20, color = ''#FF0000''\<rparr>,
                         \<lparr>name = ''B'', percentage = 80, color = ''#0000FF''\<rparr>] = Some 0
   \<and> fst (edit_section
        \<lparr>wheels = [1 \<mapsto> [\<lparr>name = ''A'', percentage = 20, color = ''#FF0000''\<rparr>,
                         \<lparr>name = ''B'', percentage = 80, color = ''#0000FF''\<rparr>]],
         database = Map.empty\<rparr> 1 ''a'' 30 ''red'' (\<lambda>i. 0) 0)
       = Inl (PercentageBudgetExceeded 80)
   \<and> fst (edit_section
        \<lparr>wheels = [1 \<mapsto> [\<lparr>name = ''A'', percentage = 20, color = ''#FF0000''\<rparr>,
                         \<lparr>name = ''B'', percentage = 80, color = ''#0000FF''\<rparr>]],
         database = Map.empty\<rparr> 1 ''a'' 20 ''red'' (\<lambda>i. 0) 0)
       = Inr (\<lparr>name = ''A'', percentage = 20, color = ''#FF0000''\<rparr>, 100)"
proof -
  let ?A = "\<lparr>name = ''A'', percentage = 20, color = ''#FF0000''\<rparr>"
  let ?B = "\<lparr>name = ''B'', percentage = 80, color = ''#0000FF''\<rparr>"
  let ?S = "\<lparr>wheels = [1 \<mapsto> [?A, ?B]], database = Map.empty\<rparr>"
  have h: "get_wheel_sections ?S 1 (\<lambda>i. 0) = ([?A, ?B], ?S)"
    by (simp add: get_wheel_sections_def)
  have f: "find_section ''a'' [?A, ?B] = Some 0"
    by (simp add: name_matches_def) code_simp
  have ok: "fst (edit_section ?S 1 ''a'' 20 ''red'' (\<lambda>i. 0) 0) = Inr (?A, 100)"
    using h f
    by (simp add: edit_section_def calculate_total_percentage_def parse_color_red float_eval)
  show ?thesis
    using h f ok edit_section_budget [OF h f, of 30 "''red''" 0 80]
    by (simp add: calculate_total_percentage_def float_eval)
qed

text \<open>
  Claim C3 as it is stated, without the range condition, fails: a new percentage of
  150 is rejected by the range check, which comes first, although the total less the
  section's own percentage, plus 150, exceeds 100.
\<close>

theorem edit_section_invalid_before_budget:
  "fst (edit_section
        \<lparr>wheels = [1 \<mapsto> [\<lparr>name = ''A'', percentage = 20, color = ''#FF0000''\<rparr>,
                         \<lparr>name = ''B'', percentage = 80, color = ''#0000FF''\<rparr>]],
         database = Map.empty\<rparr> 1 ''A'' 150 ''red'' (\<lambda>i. 0) 0)
     = Inl InvalidPercentage
   \<and> fadd (fsub (calculate_total_percentage
                     [\<lparr>name = ''A'', percentage = 20, color = ''#FF0000''\<rparr>,
                      \<lparr>name = ''B'', percentage = 80, color = ''#0000FF''\<rparr>])
                  (percentage \<lparr>name = ''A'', percentage = 20, color = ''#FF0000''\<rparr>)) 150
       > 100
   \<and> (calculate_total_percentage [\<lparr>name = ''A'', percentage = 20, color = ''#FF0000''\<rparr>,
                         \<lparr>name = ''B'', percentage = 80, color = ''#0000FF''\<rparr>]
        - percentage \<lparr>name = ''A'', percentage = 20, color = ''#FF0000''\<rparr>) + 150 > 100"
  by (simp add: edit_section_def get_wheel_sections_def calculate_total_percentage_def
       name_matches_def float_eval)

subsection \<open>\<open>add_section\<close>: duplicates and failures\<close>

lemma list_ex_name_matches:
  "list_ex (name_matches n) sections \<longleftrightarrow> (\<exists>s \<in> set sections. lower (name s) = lower n)"
  by (simp add: list_ex_iff name_matches_def)

text \<open>
  Claim C4. Let \<open>sections\<close> be the list \<open>add_section\<close> reads for the guild. With a
  percentage in range and a name whose lower-casing is that of a section in the list,
  the command fails with \<open>DuplicateName\<close>. Whenever the command fails, the error is
  one of \<open>InvalidPercentage\<close>, \<open>DuplicateName\<close> and \<open>PercentageBudgetExceeded\<close> (with the
  current total), and the state left is the state after the read: the guild's list is
  \<open>sections\<close>, the database is as before, and nothing at all has changed when the
  guild was cached already.
\<close>

theorem add_section_failures:
  "get_wheel_sections self g rnds = (sections, self1) \<Longrightarrow>
     (0 < p \<and> p \<le> 100 \<and> (\<exists>s \<in> set sections. lower (name s) = lower n) \<longrightarrow>
        fst (add_section self g n p c rnds rnd) = Inl DuplicateName) \<and>
     (\<forall>e. fst (add_section self g n p c rnds rnd) = Inl e \<longrightarrow>
        (e = InvalidPercentage \<or> e = DuplicateName
           \<or> e = PercentageBudgetExceeded (calculate_total_percentage sections))
        \<and> snd (add_section self g n p c rnds rnd) = self1
        \<and> wheels self1 g = Some sections
        \<and> database self1 = database self
        \<and> (wheels self g \<noteq> None \<longrightarrow> self1 = self))"
  by (auto simp: add_section_def Let_def list_ex_name_matches get_wheel_sections_def
           split: option.splits)

theorem add_section_failures_witness:
  "get_wheel_sections
     \<lparr>wheels = [1 \<mapsto> [\<lparr>name = ''Pizza'', percentage = 40, color = ''#FF0000''\<rparr>]],
      database = [1 \<mapsto> [(''Pizza'', 40, ''#FF0000'')]]\<rparr> 1 (\<lambda>i. 0)
   = ([\<lparr>name = ''Pizza'', percentage = 40, color = ''#FF0000''\<rparr>],
      \<lparr>wheels = [1 \<mapsto> [\<lparr>name = ''Pizza'', percentage = 40, color = ''#FF0000''\<rparr>]],
       database = [1 \<mapsto> [(''Pizza'', 40, ''#FF0000'')]]\<rparr>)
   \<and> lower (name \<lparr>name = ''Pizza'', percentage = 40, color = ''#FF0000''\<rparr>) = lower ''PIZZA''
   \<and> add_section
        \<lparr>wheels = [1 \<mapsto> [\<lparr>name = ''Pizza'', percentage = 40, color = ''#FF0000''\<rparr>]],
         database = [1 \<mapsto> [(''Pizza'', 40, ''#FF0000'')]]\<rparr> 1 ''PIZZA'' 10 ''blue'' (\<lambda>i. 0) 0
     = (Inl DuplicateName,
        \<lparr>wheels = [1 \<mapsto> [\<lparr>name = ''Pizza'', percentage = 40, color = ''#FF0000''\<rparr>]],
         database = [1 \<mapsto> [(''Pizza'', 40, ''#FF0000'')]]\<rparr>)"
proof -
  let ?P = "\<lparr>name = ''Pizza'', percentage = 40, color = ''#FF0000''\<rparr>"
  let ?S = "\<lparr>wheels = [1 \<mapsto> [?P]], database = [1 \<mapsto> [(''Pizza'', 40, ''#FF0000'')]]\<rparr>"
  have h: "get_wheel_sections ?S 1 (\<lambda>i. 0) = ([?P], ?S)"
    by (simp add: get_wheel_sections_def)
  have l: "lower (name ?P) = lower ''PIZZA''"
    by simp code_simp
  have d: "\<exists>s \<in> set [?P]. lower (name s) = lower ''PIZZA''"
    using l by simp
  from add_section_failures [OF h, of 10 "''PIZZA''" "''blue''" 0]
  have "fst (add_section ?S 1 ''PIZZA'' 10 ''blue'' (\<lambda>i. 0) 0) = Inl DuplicateName"
    and "snd (add_section ?S 1 ''PIZZA'' 10 ''blue'' (\<lambda>i. 0) 0) = ?S"
    using d by auto
  then have "add_section ?S 1 ''PIZZA'' 10 ''blue'' (\<lambda>i. 0) 0 = (Inl DuplicateName, ?S)"
    by (simp add: prod_eq_iff)
  with h l show ?thesis by simp
qed

subsection \<open>\<open>remove_section\<close>: what is removed\<close>

text \<open>
  Claim C10. When some section of the list read matches the name case-insensitively,
  the list splits into the sections before the first match, the match, and the sections
  after it; \<open>remove_section\<close> yields the match, and the list it caches and stores is the
  sections before followed by the sections after, each unchanged and in the same
  order.
\<close>

theorem remove_section_first_match:
  "get_wheel_sections self g rnds = (sections, self1) \<Longrightarrow>
   \<exists>s \<in> set sections. lower (name s) = lower n \<Longrightarrow>
     \<exists>before s after.
        sections = before @ s # after
        \<and> (\<forall>x \<in> set before. lower (name x) \<noteq> lower n)
        \<and> lower (name s) = lower n
        \<and> fst (remove_section self g n rnds)
            = Inr (s, length (before @ after), calculate_total_percentage (before @ after))
        \<and> wheels (snd (remove_section self g n rnds)) g = Some (before @ after)
        \<and> database (snd (remove_section self g n rnds)) g
            = Some (map to_dict (before @ after))"
proof -
  assume get: "get_wheel_sections self g rnds = (sections, self1)"
    and ex: "\<exists>s \<in> set sections. lower (name s) = lower n"
  from ex have "find_section n sections \<noteq> None"
    by (simp add: find_section_None list_ex_name_matches)
  then obtain i where i: "find_section n sections = Some i" by auto
  from find_section_Some[OF i] have len: "i < length sections" by simp
  let ?b = "take i sections" and ?a = "drop (Suc i) sections"
  from find_section_split[OF i]
  have split: "sections = ?b @ sections ! i # ?a"
    and before: "\<forall>x \<in> set ?b. lower (name x) \<noteq> lower n"
    and match: "lower (name (sections ! i)) = lower n"
    by (auto simp: name_matches_def)
  have res: "remove_section self g n rnds =
      (Inr (sections ! i, length (?b @ ?a), calculate_total_percentage (?b @ ?a)),
       save_wheel_sections self1 g (?b @ ?a))"
    using get i by (simp add: remove_section_def remove_at_def Let_def)
  have "wheels (save_wheel_sections self1 g (?b @ ?a)) g = Some (?b @ ?a)"
    and "database (save_wheel_sections self1 g (?b @ ?a)) g = Some (map to_dict (?b @ ?a))"
    by (simp_all add: save_wheel_sections_def save_wheel_def)
  with res split before match show ?thesis
    by (intro exI[of _ ?b] exI[of _ "sections ! i"] exI[of _ ?a]) simp
qed
theorem remove_section_first_match_witness:
  "get_wheel_sections
     \<lparr>wheels = [1 \<mapsto> [\<lparr>name = ''a'', percentage = 30, color = ''#FF0000''\<rparr>,
                      \<lparr>name = ''b'', percentage = 30, color = ''#0000FF''\<rparr>,
                      \<lparr>name = ''B'', percentage = 40, color = ''#00FF00''\<rparr>]],
      database = Map.empty\<rparr> 1 (\<lambda>i. 0)
   = ([\<lparr>name = ''a'', percentage = 30, color = ''#FF0000''\<rparr>,
       \<lparr>name = ''b'', percentage = 30, color = ''#0000FF''\<rparr>,
       \<lparr>name = ''B'', percentage = 40, color = ''#00FF00''\<rparr>],
      \<lparr>wheels = [1 \<mapsto> [\<lparr>name = ''a'', percentage = 30, color = ''#FF0000''\<rparr>,
                       \<lparr>name = ''b'', percentage = 30, color = ''#0000FF''\<rparr>,
                       \<lparr>name = ''B'', percentage = 40, color = ''#00FF00''\<rparr>]],
       database = Map.empty\<rparr>)
   \<and> lower (name \<lparr>name = ''b'', percentage = 30, color = ''#0000FF''\<rparr>) = lower ''B''
   \<and> remove_section
        \<lparr>wheels = [1 \<mapsto> [\<lparr>name = ''a'', percentage = 30, color = ''#FF0000''\<rparr>,
                         \<lparr>name = ''b'', percentage = 30, color = ''#0000FF''\<rparr>,
                         \<lparr>name = ''B'', percentage = 40, color = ''#00FF00''\<rparr>]],
         database = Map.empty\<rparr> 1 ''B'' (\<lambda>i. 0)
     = (Inr (\<lparr>name = ''b'', percentage = 30, color = ''#0000FF''\<rparr>, 2, 70),
        \<lparr>wheels = [1 \<mapsto> [\<lparr>name = ''a'', percentage = 30, color = ''#FF0000''\<rparr>,
                         \<lparr>name = ''B'', percentage = 40, color = ''#00FF00''\<rparr>]],
         database = [1 \<mapsto> [(''a'', 30, ''#FF0000''), (''B'', 40, ''#00FF00'')]]\<rparr>)"
proof -
  let ?a = "\<lparr>name = ''a'', percentage = 30, color = ''#FF0000''\<rparr>"
  let ?b = "\<lparr>name = ''b'', percentage = 30, color = ''#0000FF''\<rparr>"
  let ?B = "\<lparr>name = ''B'', percentage = 40, color = ''#00FF00''\<rparr>"
  let ?S = "\<lparr>wheels = [1 \<mapsto> [?a, ?b, ?B]], database = Map.empty\<rparr>"
  have h: "get_wheel_sections ?S 1 (\<lambda>i. 0) = ([?a, ?b, ?B], ?S)"
    by (simp add: get_wheel_sections_def)
  have l: "lower (name ?b) = lower ''B''"
    by simp code_simp
  have n: "lower ''a'' \<noteq> lower ''B''"
    by code_simp
  have d: "\<exists>s \<in> set [?a, ?b, ?B]. lower (name s) = lower ''B''"
    using l by simp
  have f: "find_section ''B'' [?a, ?b, ?B] = Some 1"
    using l n by (simp add: name_matches_def)
  show ?thesis
    using h l f remove_section_first_match [OF h d]
    by (simp add: remove_section_def remove_at_def calculate_total_percentage_def
        save_wheel_sections_def save_wheel_def to_dict_def float_eval)
qed

subsection \<open>The percentage budget\<close>

lemma lower_A_B_C: "lower ''A'' = ''a''" "lower ''B'' = ''b''" "lower ''C'' = ''c''"
  by code_simp+

text \<open>A successful \<open>add_section\<close> leaves the total, as the code computes it, at most
  100: the sum of the new list is the sum that was checked.\<close>

lemma add_section_total:
  assumes "get_wheel_sections self g rnds = (sections, self1)"
    and "fst (add_section self g n p c rnds rnd) = Inr (s, t)"
  shows "wheels (snd (add_section self g n p c rnds rnd)) g = Some (sections @ [s])
         \<and> t = calculate_total_percentage (sections @ [s]) \<and> t \<le> 100"
  using assms
  by (auto simp: add_section_def Let_def calculate_total_percentage_snoc new_section_def
        save_wheel_sections_def split: if_splits)

text \<open>
  Claim C2, at an input where it fails. On a fresh bot the sections \<open>A = 23.6\<close>,
  \<open>B = 72.9\<close> and \<open>C = 0.2\<close> are added and \<open>A\<close> is then edited to 26.9; every command
  reports success. \<open>edit_section\<close> checks \<open>(96.7 - 23.6) + 26.9\<close>, which is 100.0 in float
  arithmetic, but the total of the list it leaves, \<open>(26.9 + 72.9) + 0.2\<close>, is
  100.00000000000001: above 100 as the code computes it, and above 100 as the exact
  sum of the three doubles.
\<close>

theorem total_exceeds_budget_after_edit:
  "run_commands initial_bot
     [AddSection 1 ''A'' (fl (118 / 5)) ''red'' (\<lambda>i. 0) 0,
      AddSection 1 ''B'' (fl (729 / 10)) ''blue'' (\<lambda>i. 0) 0,
      AddSection 1 ''C'' (fl (1 / 5)) ''red'' (\<lambda>i. 0) 0,
      EditSection 1 ''A'' (fl (269 / 10)) ''red'' (\<lambda>i. 0) 0]
   = Some \<lparr>wheels = [1 \<mapsto>
             [\<lparr>name = ''A'', percentage = 3785838436758323 / 2 ^ 47, color = ''#FF0000''\<rparr>,
              \<lparr>name = ''B'', percentage = 2564940725275853 / 2 ^ 45, color = ''#0000FF''\<rparr>,
              \<lparr>name = ''C'', percentage = 3602879701896397 / 2 ^ 54, color = ''#FF0000''\<rparr>]],
           database = [1 \<mapsto>
             [(''A'', 3785838436758323 / 2 ^ 47, ''#FF0000''),
              (''B'', 2564940725275853 / 2 ^ 45, ''#0000FF''),
              (''C'', 3602879701896397 / 2 ^ 54, ''#FF0000'')]]\<rparr>
   \<and> calculate_total_percentage
        [\<lparr>name = ''A'', percentage = 3785838436758323 / 2 ^ 47, color = ''#FF0000''\<rparr>,
         \<lparr>name = ''B'', percentage = 2564940725275853 / 2 ^ 45, color = ''#0000FF''\<rparr>,
         \<lparr>name = ''C'', percentage = 3602879701896397 / 2 ^ 54, color = ''#FF0000''\<rparr>]
       = 7036874417766401 / 2 ^ 46
   \<and> 100 < calculate_total_percentage
        [\<lparr>name = ''A'', percentage = 3785838436758323 / 2 ^ 47, color = ''#FF0000''\<rparr>,
         \<lparr>name = ''B'', percentage = 2564940725275853 / 2 ^ 45, color = ''#0000FF''\<rparr>,
         \<lparr>name = ''C'', percentage = 3602879701896397 / 2 ^ 54, color = ''#FF0000''\<rparr>]
   \<and> 100 < sum_list (map percentage
        [\<lparr>name = ''A'', percentage = 3785838436758323 / 2 ^ 47, color = ''#FF0000''\<rparr>,
         \<lparr>name = ''B'', percentage = 2564940725275853 / 2 ^ 45, color = ''#0000FF''\<rparr>,
         \<lparr>name = ''C'', percentage = 3602879701896397 / 2 ^ 54, color = ''#FF0000''\<rparr>])"
proof -
  have run: "run_commands initial_bot
     [AddSection 1 ''A'' (fl (118 / 5)) ''red'' (\<lambda>i. 0) 0,
      AddSection 1 ''B'' (fl (729 / 10)) ''blue'' (\<lambda>i. 0) 0,
      AddSection 1 ''C'' (fl (1 / 5)) ''red'' (\<lambda>i. 0) 0,
      EditSection 1 ''A'' (fl (269 / 10)) ''red'' (\<lambda>i. 0) 0]
   = Some \<lparr>wheels = [1 \<mapsto>
             [\<lparr>name = ''A'', percentage = 3785838436758323 / 2 ^ 47, color = ''#FF0000''\<rparr>,
              \<lparr>name = ''B'', percentage = 2564940725275853 / 2 ^ 45, color = ''#0000FF''\<rparr>,
              \<lparr>name = ''C'', percentage = 3602879701896397 / 2 ^ 54, color = ''#FF0000''\<rparr>]],
           database = [1 \<mapsto>
             [(''A'', 3785838436758323 / 2 ^ 47, ''#FF0000''),
              (''B'', 2564940725275853 / 2 ^ 45, ''#0000FF''),
              (''C'', 3602879701896397 / 2 ^ 54, ''#FF0000'')]]\<rparr>"
    by (simp add: initial_bot_def add_section_def edit_section_def get_wheel_sections_def
        load_wheel_def calculate_total_percentage_def new_section_def parse_color_red
        parse_color_blue save_wheel_sections_def save_wheel_def to_dict_def name_matches_def
        lower_A_B_C float_eval)
  have total: "calculate_total_percentage
        [\<lparr>name = ''A'', percentage = 3785838436758323 / 2 ^ 47, color = ''#FF0000''\<rparr>,
         \<lparr>name = ''B'', percentage = 2564940725275853 / 2 ^ 45, color = ''#0000FF''\<rparr>,
         \<lparr>name = ''C'', percentage = 3602879701896397 / 2 ^ 54, color = ''#FF0000''\<rparr>]
       = 7036874417766401 / 2 ^ 46"
    by (simp add: calculate_total_percentage_def float_eval)
  have exact: "100 < sum_list (map percentage
        [\<lparr>name = ''A'', percentage = 3785838436758323 / 2 ^ 47, color = ''#FF0000''\<rparr>,
         \<lparr>name = ''B'', percentage = 2564940725275853 / 2 ^ 45, color = ''#0000FF''\<rparr>,
         \<lparr>name = ''C'', percentage = 3602879701896397 / 2 ^ 54, color = ''#FF0000''\<rparr>])"
    by simp
  from run total exact show ?thesis by simp
qed

text \<open>An \<open>add_section\<close> can already take the exact sum above 100 while the total the
  code computes stays at 100: after 100, the percentage \<open>2 ^ -60\<close> is accepted.\<close>

lemma add_section_absorbed:
  "run_commands initial_bot
     [AddSection 1 ''A'' 100 ''red'' (\<lambda>i. 0) 0,
      AddSection 1 ''B'' (1 / 2 ^ 60) ''blue'' (\<lambda>i. 0) 0]
   = Some \<lparr>wheels = [1 \<mapsto> [\<lparr>name = ''A'', percentage = 100, color = ''#FF0000''\<rparr>,
                           \<lparr>name = ''B'', percentage = 1 / 2 ^ 60, color = ''#0000FF''\<rparr>]],
           database = [1 \<mapsto> [(''A'', 100, ''#FF0000''), (''B'', 1 / 2 ^ 60, ''#0000FF'')]]\<rparr>"
  "calculate_total_percentage [\<lparr>name = ''A'', percentage = 100, color = ''#FF0000''\<rparr>,
                               \<lparr>name = ''B'', percentage = 1 / 2 ^ 60, color = ''#0000FF''\<rparr>]
     = 100"
  "100 < sum_list (map percentage [\<lparr>name = ''A'', percentage = 100, color = ''#FF0000''\<rparr>,
                               \<lparr>name = ''B'', percentage = 1 / 2 ^ 60, color = ''#0000FF''\<rparr>])"
  by (simp_all add: initial_bot_def add_section_def get_wheel_sections_def
        load_wheel_def calculate_total_percentage_def new_section_def parse_color_red
        parse_color_blue save_wheel_sections_def save_wheel_def to_dict_def name_matches_def
        lower_A_B_C float_eval)

subsection \<open>The pie slices\<close>

text \<open>
  Claim C8, as amended. For a list that is not empty and whose colours Pillow accepts,
  the renderer draws one slice per section, in list order. The first slice starts at
  angle 0; slice \<open>i\<close> starts at the running sum of the spans of the sections before it
  and ends at its start plus its own span, filled with the section's colour; each slice
  starts where the one before ends. The span of a section is
  \<open>(percentage / 100) * 360\<close>, with the constant 100 as the denominator, not the list's
  total. Sums, quotient and product are those of float arithmetic. When Pillow rejects
  one of the colours, nothing is drawn to the end: the call ends in \<open>ValueError\<close>.
\<close>

theorem pie_slices:
  "sections \<noteq> [] \<Longrightarrow>
     ((\<forall>s \<in> set sections. getrgb (color s)) \<longrightarrow>
        (\<exists>slices.
           create_wheel_image getrgb sections winner = Inr slices
           \<and> length slices = length sections
           \<and> start_angle (hd slices) = 0
           \<and> (\<forall>i < length sections.
                 start_angle (slices ! i) = foldl fadd 0 (map span_of (take i sections))
                 \<and> end_angle (slices ! i)
                     = fadd (start_angle (slices ! i))
                         (fmul (fdiv (percentage (sections ! i)) 100) 360)
                 \<and> fill_color (slices ! i) = color (sections ! i))
           \<and> (\<forall>i. Suc i < length sections \<longrightarrow>
                 start_angle (slices ! Suc i) = end_angle (slices ! i)))) \<and>
     ((\<exists>s \<in> set sections. \<not> getrgb (color s)) \<longrightarrow>
        create_wheel_image getrgb sections winner = Inl ValueError)"
proof (intro conjI impI)
  assume ne: "sections \<noteq> []" and ok: "\<forall>s \<in> set sections. getrgb (color s)"
  from draw_sections_accepts[OF ok, of 0 winner] obtain slices where
    d: "draw_sections getrgb 0 winner sections = Inr slices"
    and len: "length slices = length sections"
    and nth: "\<forall>i < length sections.
            start_angle (slices ! i) = foldl fadd 0 (map span_of (take i sections))
            \<and> end_angle (slices ! i) = fadd (start_angle (slices ! i)) (span_of (sections ! i))
            \<and> fill_color (slices ! i) = color (sections ! i)"
    by blast
  have img: "create_wheel_image getrgb sections winner = Inr slices"
    using ne d by (simp add: create_wheel_image_def)
  have first: "start_angle (hd slices) = 0"
    using ne len nth by (cases slices) (auto simp: hd_conv_nth)
  have contiguous: "\<forall>i. Suc i < length sections \<longrightarrow>
         start_angle (slices ! Suc i) = end_angle (slices ! i)"
  proof (intro allI impI)
    fix i assume i: "Suc i < length sections"
    then have "i < length sections" by simp
    with nth i show "start_angle (slices ! Suc i) = end_angle (slices ! i)"
      by (simp add: take_Suc_conv_app_nth)
  qed
  from img len first nth contiguous
  show "\<exists>slices.
           create_wheel_image getrgb sections winner = Inr slices
           \<and> length slices = length sections
           \<and> start_angle (hd slices) = 0
           \<and> (\<forall>i < length sections.
                 start_angle (slices ! i) = foldl fadd 0 (map span_of (take i sections))
                 \<and> end_angle (slices ! i)
                     = fadd (start_angle (slices ! i))
                         (fmul (fdiv (percentage (sections ! i)) 100) 360)
                 \<and> fill_color (slices ! i) = color (sections ! i))
           \<and> (\<forall>i. Suc i < length sections \<longrightarrow>
                 start_angle (slices ! Suc i) = end_angle (slices ! i))"
    by (auto simp: span_of_def)
next
  assume "\<exists>s \<in> set sections. \<not> getrgb (color s)"
  then show "create_wheel_image getrgb sections winner = Inl ValueError"
    by (rule create_wheel_image_rejects)
qed

theorem pie_slices_witness:
  "[\<lparr>name = ''A'', percentage = 25, color = ''#FF0000''\<rparr>,
    \<lparr>name = ''B'', percentage = 50, color = ''#0000FF''\<rparr>] \<noteq> []
   \<and> hex_pattern ''#FF0000'' \<and> hex_pattern ''#0000FF''
   \<and> create_wheel_image hex_pattern
        [\<lparr>name = ''A'', percentage = 25, color = ''#FF0000''\<rparr>,
         \<lparr>name = ''B'', percentage = 50, color = ''#0000FF''\<rparr>] (Some ''B'')
     = Inr [\<lparr>start_angle = 0, end_angle = 90, fill_color = ''#FF0000'',
             outline_color = ''black'', outline_width = 2\<rparr>,
            \<lparr>start_angle = 90, end_angle = 270, fill_color = ''#0000FF'',
             outline_color = ''red'', outline_width = 4\<rparr>]"
proof -
  let ?L = "[\<lparr>name = ''A'', percentage = 25, color = ''#FF0000''\<rparr>,
             \<lparr>name = ''B'', percentage = 50, color = ''#0000FF''\<rparr>]"
  have ne: "?L \<noteq> []" by simp
  have img: "create_wheel_image hex_pattern ?L (Some ''B'')
     = Inr [\<lparr>start_angle = 0, end_angle = 90, fill_color = ''#FF0000'',
             outline_color = ''black'', outline_width = 2\<rparr>,
            \<lparr>start_angle = 90, end_angle = 270, fill_color = ''#0000FF'',
             outline_color = ''red'', outline_width = 4\<rparr>]"
    by (simp add: create_wheel_image_def is_winner_def falsy_def hex_pattern_red_blue
        float_eval)
  from ne img hex_pattern_red_blue pie_slices [OF ne, of hex_pattern "Some ''B''"]
  show ?thesis by simp
qed

text \<open>
  Claim C8 as it is stated fails in its last part. The percentages 0.1, 64.1 and 35.8
  are accepted by three \<open>add_section\<close> commands; their total, as the code computes it,
  is 99.99999999999999, below 100. The spans are 0.36, 230.75999999999996 and 128.88,
  and the last slice ends at 360.0: the spans of the slices drawn sum to 360, not to
  less.
\<close>

theorem pie_slices_full_circle_below_100:
  "calculate_total_percentage
     [\<lparr>name = ''A'', percentage = fl (1 / 10), color = ''#FF0000''\<rparr>,
      \<lparr>name = ''B'', percentage = fl (641 / 10), color = ''#0000FF''\<rparr>,
      \<lparr>name = ''C'', percentage = fl (179 / 5), color = ''#FF0000''\<rparr>] < 100
   \<and> create_wheel_image hex_pattern
        [\<lparr>name = ''A'', percentage = fl (1 / 10), color = ''#FF0000''\<rparr>,
         \<lparr>name = ''B'', percentage = fl (641 / 10), color = ''#0000FF''\<rparr>,
         \<lparr>name = ''C'', percentage = fl (179 / 5), color = ''#FF0000''\<rparr>] None
     = Inr [\<lparr>start_angle = 0, end_angle = 3242591731706757 / 2 ^ 53,
             fill_color = ''#FF0000'', outline_color = ''black'', outline_width = 2\<rparr>,
            \<lparr>start_angle = 3242591731706757 / 2 ^ 53, end_angle = 8131812077170851 / 2 ^ 45,
             fill_color = ''#0000FF'', outline_color = ''black'', outline_width = 2\<rparr>,
            \<lparr>start_angle = 8131812077170851 / 2 ^ 45, end_angle = 360,
             fill_color = ''#FF0000'', outline_color = ''black'', outline_width = 2\<rparr>]
   \<and> sum_list (map slice_span
        [\<lparr>start_angle = 0, end_angle = 3242591731706757 / 2 ^ 53,
          fill_color = ''#FF0000'', outline_color = ''black'', outline_width = 2\<rparr>,
         \<lparr>start_angle = 3242591731706757 / 2 ^ 53, end_angle = 8131812077170851 / 2 ^ 45,
          fill_color = ''#0000FF'', outline_color = ''black'', outline_width = 2\<rparr>,
         \<lparr>start_angle = 8131812077170851 / 2 ^ 45, end_angle = 360,
          fill_color = ''#FF0000'', outline_color = ''black'', outline_width = 2\<rparr>]) = 360"
proof (intro conjI)
  show "calculate_total_percentage
     [\<lparr>name = ''A'', percentage = fl (1 / 10), color = ''#FF0000''\<rparr>,
      \<lparr>name = ''B'', percentage = fl (641 / 10), color = ''#0000FF''\<rparr>,
      \<lparr>name = ''C'', percentage = fl (179 / 5), color = ''#FF0000''\<rparr>] < 100"
    by (simp add: calculate_total_percentage_def float_eval)
next
  show "create_wheel_image hex_pattern
        [\<lparr>name = ''A'', percentage = fl (1 / 10), color = ''#FF0000''\<rparr>,
         \<lparr>name = ''B'', percentage = fl (641 / 10), color = ''#0000FF''\<rparr>,
         \<lparr>name = ''C'', percentage = fl (179 / 5), color = ''#FF0000''\<rparr>] None
     = Inr [\<lparr>start_angle = 0, end_angle = 3242591731706757 / 2 ^ 53,
             fill_color = ''#FF0000'', outline_color = ''black'', outline_width = 2\<rparr>,
            \<lparr>start_angle = 3242591731706757 / 2 ^ 53, end_angle = 8131812077170851 / 2 ^ 45,
             fill_color = ''#0000FF'', outline_color = ''black'', outline_width = 2\<rparr>,
            \<lparr>start_angle = 8131812077170851 / 2 ^ 45, end_angle = 360,
             fill_color = ''#FF0000'', outline_color = ''black'', outline_width = 2\<rparr>]"
    by (simp add: create_wheel_image_def is_winner_def falsy_def hex_pattern_red_blue
        float_eval)
next
  show "sum_list (map slice_span
        [\<lparr>start_angle = 0, end_angle = 3242591731706757 / 2 ^ 53,
          fill_color = ''#FF0000'', outline_color = ''black'', outline_width = 2\<rparr>,
         \<lparr>start_angle = 3242591731706757 / 2 ^ 53, end_angle = 8131812077170851 / 2 ^ 45,
          fill_color = ''#0000FF'', outline_color = ''black'', outline_width = 2\<rparr>,
         \<lparr>start_angle = 8131812077170851 / 2 ^ 45, end_angle = 360,
          fill_color = ''#FF0000'', outline_color = ''black'', outline_width = 2\<rparr>]) = 360"
    by (simp add: slice_span_def)
qed

text \<open>The three percentages are accepted, one after the other, on a fresh bot.\<close>

lemma full_circle_sections_accepted:
  "run_commands initial_bot
     [AddSection 1 ''A'' (fl (1 / 10)) ''red'' (\<lambda>i. 0) 0,
      AddSection 1 ''B'' (fl (641 / 10)) ''blue'' (\<lambda>i. 0) 0,
      AddSection 1 ''C'' (fl (179 / 5)) ''red'' (\<lambda>i. 0) 0]
   = Some \<lparr>wheels = [1 \<mapsto>
             [\<lparr>name = ''A'', percentage = fl (1 / 10), color = ''#FF0000''\<rparr>,
              \<lparr>name = ''B'', percentage = fl (641 / 10), color = ''#0000FF''\<rparr>,
              \<lparr>name = ''C'', percentage = fl (179 / 5), color = ''#FF0000''\<rparr>]],
           database = [1 \<mapsto>
             [(''A'', fl (1 / 10), ''#FF0000''), (''B'', fl (641 / 10), ''#0000FF''),
              (''C'', fl (179 / 5), ''#FF0000'')]]\<rparr>"
  by (simp add: initial_bot_def add_section_def get_wheel_sections_def
        load_wheel_def calculate_total_percentage_def new_section_def parse_color_red
        parse_color_blue save_wheel_sections_def save_wheel_def to_dict_def name_matches_def
        lower_A_B_C float_eval)

subsection \<open>Characters\<close>

lemma ord_char_of: "n < 256 \<Longrightarrow> ord (char_of n) = n"
  by (simp add: ord_def)

lemma char_of_ord: "char_of (ord c) = c"
  by (simp add: ord_def)

lemma ord_special:
  "ord (CHR ''#'') = 35" "ord (CHR ''+'') = 43" "ord (CHR ''-'') = 45"
  "ord (CHR ''_'') = 95" "ord (CHR ''x'') = 120" "ord (CHR ''X'') = 88"
  "ord (CHR ''0'') = 48" "ord (CHR 0x00) = 0"
  by (simp_all add: ord_def)

lemma hex_digit_not_special:
  assumes "is_hex_digit c"
  shows "c \<noteq> CHR ''_''" "c \<noteq> CHR ''x''" "c \<noteq> CHR ''X''" "c \<noteq> CHR ''+''" "c \<noteq> CHR ''-''"
    "c \<noteq> CHR ''#''" "\<not> is_int_space c" "\<not> is_strip_space c"
  using assms ord_special
  by (auto simp: is_hex_digit_def is_int_space_def is_strip_space_def)

lemma char_lower_hex:
  assumes "is_hex_digit c"
  shows "is_hex_digit (char_lower c)" and "\<not> is_upper_letter (char_lower c)"
  using assms
  by (auto simp: is_hex_digit_def char_lower_def is_upper_letter_def ord_char_of)

lemma char_upper_lower_canonical:
  "is_canonical_digit c \<Longrightarrow> char_upper (char_lower c) = c"
  by (auto simp: is_canonical_digit_def char_lower_def char_upper_def is_upper_letter_def
        is_lower_letter_def ord_char_of char_of_ord)

lemma canonical_digit_hex: "is_canonical_digit c \<Longrightarrow> is_hex_digit c"
  by (auto simp: is_canonical_digit_def is_hex_digit_def)

lemma char_lower_hash: "char_lower (CHR ''#'') = CHR ''#''" "char_upper (CHR ''#'') = CHR ''#''"
  by (simp_all add: char_lower_def char_upper_def is_upper_letter_def is_lower_letter_def ord_special)

subsection \<open>Parsing a colour\<close>

lemma strip_id:
  assumes "s \<noteq> []" and "\<not> is_strip_space (hd s)" and "\<not> is_strip_space (last s)"
  shows "strip s = s"
proof -
  from assms(1,2) have l: "lstrip s = s" by (cases s) (simp_all add: lstrip_def)
  from assms(1,3) have "dropWhile is_strip_space (rev s) = rev s"
    by (cases "rev s") (simp_all add: last_rev[symmetric, of "rev s", simplified] hd_rev)
  then show ?thesis by (simp add: strip_def l)
qed

lemma scan_digits_hex:
  "prev \<noteq> CHR ''_'' \<Longrightarrow> \<forall>c \<in> set cs. is_hex_digit c \<Longrightarrow> scan_digits prev cs = Some []"
  by (induction cs arbitrary: prev) (auto dest: hex_digit_not_special(1))

lemma int16_ok_hex:
  assumes "ds \<noteq> []" and "\<forall>c \<in> set ds. is_hex_digit c"
  shows "int16_ok ds"
proof -
  obtain c cs where ds: "ds = c # cs" using assms(1) by (cases ds) auto
  with assms(2) have c: "is_hex_digit c" and cs: "\<forall>x \<in> set cs. is_hex_digit x" by auto
  have sp: "dropWhile is_int_space ds = ds"
    using c by (simp add: ds hex_digit_not_special)
  have sg: "skip_sign ds = ds"
    using c by (simp add: ds skip_sign_def hex_digit_not_special)
  have pf: "skip_prefix ds = ds"
  proof (cases cs)
    case Nil
    then show ?thesis by (simp add: ds skip_prefix_def)
  next
    case (Cons c1 cs')
    with cs have "is_hex_digit c1" by simp
    then show ?thesis
      by (simp add: ds Cons skip_prefix_def hex_digit_not_special)
  qed
  have sc: "scan_digits (CHR 0x00) ds = Some []"
    using assms(2) by (simp add: scan_digits_hex)
  show ?thesis
    unfolding int16_ok_def sp sg pf Let_def
    using c sc by (simp add: ds hex_digit_not_special)
qed

lemma map_of_color_map_hash: "map_of color_map (CHR ''#'' # ds) = None"
  by (simp add: color_map_def)

text \<open>A token whose trimmed lower-casing matches the pattern is returned upper-cased.\<close>

lemma parse_color_hex_pattern:
  assumes "hex_pattern (strip (lower token))"
  shows "parse_color token rnd = upper (strip (lower token))"
proof -
  from assms obtain ds where c: "strip (lower token) = CHR ''#'' # ds"
    and len: "length ds = 6" and hex: "\<forall>c \<in> set ds. is_hex_digit c"
    by (auto simp: hex_pattern_def list_all_iff split: list.splits)
  from len have "ds \<noteq> []" by auto
  from int16_ok_hex[OF this hex] show ?thesis
    by (simp add: parse_color_def c map_of_color_map_hash startswith_hash_def len)
qed

lemma canonical_color_parts:
  assumes "canonical_color s"
  shows "strip (lower s) = lower s" and "hex_pattern (lower s)" and "upper (lower s) = s"
proof -
  from assms obtain ds where s: "s = CHR ''#'' # ds"
    and len: "length ds = 6" and can: "\<forall>c \<in> set ds. is_canonical_digit c"
    by (auto simp: canonical_color_def list_all_iff split: list.splits)
  have low: "lower s = CHR ''#'' # map char_lower ds"
    by (simp add: s lower_def char_lower_hash)
  have hex: "\<forall>c \<in> set (map char_lower ds). is_hex_digit c"
    using can by (auto dest: canonical_digit_hex char_lower_hex(1))
  from len have ne: "ds \<noteq> []" by auto
  then have "last (lower s) \<in> set (map char_lower ds)"
    by (simp add: low last_map)
  with hex have "is_hex_digit (last (lower s))" by blast
  then have "\<not> is_strip_space (last (lower s))"
    by (rule hex_digit_not_special(8))
  moreover have "\<not> is_strip_space (hd (lower s))"
    by (simp add: low is_strip_space_def ord_special)
  ultimately show "strip (lower s) = lower s"
    by (intro strip_id) (simp_all add: low)
  show "hex_pattern (lower s)"
    using hex len by (simp add: hex_pattern_def low list_all_iff)
  show "upper (lower s) = s"
    using can by (simp add: s upper_def lower_def char_lower_hash
        char_upper_lower_canonical map_idI)
qed

lemma parse_color_canonical: "canonical_color s \<Longrightarrow> parse_color s rnd = s"
  using parse_color_hex_pattern[of s rnd] canonical_color_parts[of s] by simp

subsection \<open>Saving and loading\<close>

lemma from_dict_to_dict:
  "canonical_color (color s) \<Longrightarrow> from_dict (to_dict s) rnd = s"
  by (simp add: from_dict_def to_dict_def new_section_def parse_color_canonical)

text \<open>
  Claim C7. For every guild id, every database and every section list whose colours
  are canonical (\<open>#\<close> and six digits out of \<open>0-9A-F\<close>), loading after saving yields the
  same list: the same sections in the same order, with the same name, percentage and
  colour, whatever the random source would return. Loading builds each section with the
  constructor, which parses the stored colour again; on a canonical colour the parser
  is the identity (\<open>parse_color_canonical\<close>).
\<close>

theorem load_after_save:
  "\<forall>s \<in> set sections. canonical_color (color s) \<Longrightarrow>
     load_wheel (save_wheel db guild_id sections) guild_id rnds = sections"
proof -
  assume can: "\<forall>s \<in> set sections. canonical_color (color s)"
  have "map (\<lambda>(i, d). from_dict d (rnds i)) (enumerate 0 (map to_dict sections)) = sections"
  proof (rule nth_equalityI)
    show "length (map (\<lambda>(i, d). from_dict d (rnds i)) (enumerate 0 (map to_dict sections)))
          = length sections" by simp
  next
    fix i
    assume "i < length (map (\<lambda>(i, d). from_dict d (rnds i)) (enumerate 0 (map to_dict sections)))"
    then have i: "i < length sections" by simp
    with can have "canonical_color (color (sections ! i))" by simp
    with i show "map (\<lambda>(i, d). from_dict d (rnds i)) (enumerate 0 (map to_dict sections)) ! i
          = sections ! i"
      by (simp add: nth_enumerate_eq from_dict_to_dict)
  qed
  then show ?thesis by (simp add: load_wheel_def save_wheel_def)
qed

theorem load_after_save_witness:
  "canonical_color (color \<lparr>name = ''Tea'', percentage = 62.5, color = ''#1A2B3C''\<rparr>)
   \<and> canonical_color (color \<lparr>name = ''Milk'', percentage = 37.5, color = ''#FFC0CB''\<rparr>)
   \<and> load_wheel
        (save_wheel Map.empty 42 [\<lparr>name = ''Tea'', percentage = 62.5, color = ''#1A2B3C''\<rparr>,
                                  \<lparr>name = ''Milk'', percentage = 37.5, color = ''#FFC0CB''\<rparr>])
        42 (\<lambda>i. 7)
     = [\<lparr>name = ''Tea'', percentage = 62.5, color = ''#1A2B3C''\<rparr>,
        \<lparr>name = ''Milk'', percentage = 37.5, color = ''#FFC0CB''\<rparr>]"
proof -
  have c1: "canonical_color ''#1A2B3C''" by code_simp
  have c2: "canonical_color ''#FFC0CB''" by code_simp
  have all: "\<forall>s \<in> set [\<lparr>name = ''Tea'', percentage = 62.5, color = ''#1A2B3C''\<rparr>,
                          \<lparr>name = ''Milk'', percentage = 37.5, color = ''#FFC0CB''\<rparr>].
               canonical_color (color s)"
    using c1 c2 by simp
  from c1 c2 load_after_save [OF all, of Map.empty 42 "\<lambda>i. 7"] show ?thesis by simp
qed

subsection \<open>The random fallback\<close>

lemma hex_digit_upper_canonical: "d < 16 \<Longrightarrow> is_canonical_digit (hex_digit_upper d)"
  by (auto simp: hex_digit_upper_def is_canonical_digit_def ord_char_of)

lemma hex_upper_canonical: "\<forall>c \<in> set (hex_upper n). is_canonical_digit c"
proof (induction n rule: hex_upper.induct)
  case (1 n)
  show ?case
  proof (cases "n < 16")
    case True
    then show ?thesis by (simp add: hex_upper.simps[of n] hex_digit_upper_canonical)
  next
    case False
    with 1 show ?thesis
      by (auto simp: hex_upper.simps[of n] hex_digit_upper_canonical)
  qed
qed

lemma length_hex_upper: "0 < k \<Longrightarrow> n < 16 ^ k \<Longrightarrow> length (hex_upper n) \<le> k"
proof (induction n arbitrary: k rule: hex_upper.induct)
  case (1 n)
  show ?case
  proof (cases "n < 16")
    case True
    with 1(2) show ?thesis by (simp add: hex_upper.simps[of n])
  next
    case False
    with 1(3) have "1 < k" by (cases "k = 1") (use 1(2) in auto)
    then obtain j where k: "k = Suc j" "0 < j" by (cases k) auto
    from 1(3) have "n div 16 < 16 ^ j" by (simp add: k less_mult_imp_div_less mult.commute)
    from 1(1)[OF False k(2) this] False show ?thesis
      by (simp add: hex_upper.simps[of n] k)
  qed
qed

text \<open>For a draw within the range of \<open>random.randint(0, 0xFFFFFF)\<close> the fallback is a
  canonical colour.\<close>

lemma fallback_canonical:
  assumes "rnd \<le> 0xFFFFFF"
  shows "canonical_color (CHR ''#'' # format_06X rnd)"
proof -
  from assms have "rnd < 16 ^ 6" by simp
  with length_hex_upper[of 6 rnd] have "length (hex_upper rnd) \<le> 6" by simp
  then have "length (format_06X rnd) = 6" by (simp add: format_06X_def Let_def)
  moreover have "is_canonical_digit (CHR ''0'')"
    by (simp add: is_canonical_digit_def ord_special)
  then have "\<forall>c \<in> set (format_06X rnd). is_canonical_digit c"
    using hex_upper_canonical[of rnd] by (auto simp: format_06X_def Let_def)
  ultimately show ?thesis by (simp add: canonical_color_def list_all_iff)
qed

lemma parse_color_fallback:
  "map_of color_map (strip (lower token)) = None \<Longrightarrow>
   \<not> (startswith_hash (strip (lower token)) \<and> length (strip (lower token)) = 7
        \<and> int16_ok (tl (strip (lower token)))) \<Longrightarrow>
     parse_color token rnd = CHR ''#'' # format_06X rnd"
  by (auto simp: parse_color_def)


text \<open>
  Claim C6, at an input where it fails. The token \<open>#0x1234\<close> is not in the colour
  table and does not match the pattern (\<open>x\<close> is no hexadecimal digit), and yet
  \<open>_parse_color\<close> returns it upper-cased, \<open>#0X1234\<close>, instead of a random colour: the
  test is \<open>int(color[1:], 16)\<close>, which accepts a \<open>0x\<close> prefix, a sign and underscores
  between digits. The tokens \<open>#+12345\<close> and \<open>#1_2_3a\<close> pass in the same way. The other
  half of the claim holds: a token that matches the pattern is returned upper-cased
  (\<open>parse_color_hex_pattern\<close>), and the fallback is a well-formed colour
  (\<open>fallback_canonical\<close>).
\<close>

theorem parse_color_accepts_non_hex:
  "map_of color_map (strip (lower ''#0x1234'')) = None
   \<and> \<not> hex_pattern (strip (lower ''#0x1234''))
   \<and> parse_color ''#0x1234'' rnd = upper (strip (lower ''#0x1234''))
   \<and> parse_color ''#0x1234'' rnd = ''#0X1234''
   \<and> \<not> hex_pattern (parse_color ''#0x1234'' rnd)
   \<and> parse_color ''#+12345'' rnd = ''#+12345''
   \<and> parse_color ''#1_2_3a'' rnd = ''#1_2_3A''"
proof -
  have a: "map_of color_map (strip (lower ''#0x1234'')) = None" by code_simp
  have b: "\<not> hex_pattern (strip (lower ''#0x1234''))" by code_simp
  have c: "upper (strip (lower ''#0x1234'')) = ''#0X1234''" by code_simp
  have d: "parse_color ''#0x1234'' rnd = ''#0X1234''" by code_simp
  have e: "\<not> hex_pattern ''#0X1234''" by code_simp
  have f: "parse_color ''#+12345'' rnd = ''#+12345''" by code_simp
  have g: "parse_color ''#1_2_3a'' rnd = ''#1_2_3A''" by code_simp
  from a b c d e f g show ?thesis by simp
qed

lemma parse_color_examples:
  "parse_color ''red'' rnd = ''#FF0000''"
  "parse_color ''#1a2b3c'' rnd = ''#1A2B3C''"
  "parse_color ''notacolor'' rnd = CHR ''#'' # format_06X rnd"
  "rnd \<le> 0xFFFFFF \<Longrightarrow> canonical_color (parse_color ''notacolor'' rnd)"
proof -
  show "parse_color ''red'' rnd = ''#FF0000''" by code_simp
  show "parse_color ''#1a2b3c'' rnd = ''#1A2B3C''" by code_simp
  have t: "map_of color_map (strip (lower ''notacolor'')) = None" by code_simp
  have h: "\<not> startswith_hash (strip (lower ''notacolor''))" by code_simp
  from t h show n: "parse_color ''notacolor'' rnd = CHR ''#'' # format_06X rnd"
    by (simp add: parse_color_fallback)
  show "rnd \<le> 0xFFFFFF \<Longrightarrow> canonical_color (parse_color ''notacolor'' rnd)"
    by (simp add: n fallback_canonical)
qed

end
